theory Spec2Isabelle
  imports
    Main
    "HOL-Library.Word"
    "HOL-Library.Char_ord"
    "HOL-Library.List_Lexorder"
    "HOL-Library.Multiset"
begin

section \<open>Python values and the builtins the scripts rely on\<close>

text \<open>
  The training-command builder (\<^verbatim>\<open>scripts/build_train_cmd.py\<close>) works on dictionaries
  whose values are the scalars a TOML file or an environment variable can provide.
  A Python \<^verbatim>\<open>float\<close> is identified by the text \<^verbatim>\<open>str()\<close> prints for it (distinct
  doubles print differently), so formatting a float is reading that text back; the
  ordering and the arithmetic of floats, and the parsers \<^verbatim>\<open>int()\<close> and \<^verbatim>\<open>float()\<close>,
  belong to the interpreter and are taken as parameters (\<open>pybuiltins\<close>).
\<close>

datatype pyfloat = PyFloat string

datatype pyval = VInt int | VFloat pyfloat | VStr string | VBool bool

datatype pynum = NInt int | NFloat pyfloat

datatype py_error =
    TypeError | ValueError | KeyError | OverflowError | TOMLDecodeError | UnicodeEncodeError
  | SystemExit int

type_synonym 'v dict = "(string \<times> 'v) list"

record pybuiltins =
  int_of_str :: "string \<Rightarrow> int option"
  float_of_str :: "string \<Rightarrow> pyfloat option"
  float_of_int :: "int \<Rightarrow> pyfloat option"
  num_gt :: "pynum \<Rightarrow> pynum \<Rightarrow> bool"
  num_eq :: "pynum \<Rightarrow> pynum \<Rightarrow> bool"
  num_floordiv :: "pynum \<Rightarrow> int \<Rightarrow> pynum"
  num_add :: "pynum \<Rightarrow> int \<Rightarrow> pynum"
  num_mul :: "pynum \<Rightarrow> int \<Rightarrow> pynum"
  encode_utf8 :: "string \<Rightarrow> string option"
  md5 :: "string \<Rightarrow> 128 word"
  pathlib_join :: "string \<Rightarrow> string list \<Rightarrow> string"

text \<open>
  \<open>int_of_str\<close> and \<open>float_of_str\<close> are \<^verbatim>\<open>int(s)\<close> and \<^verbatim>\<open>float(s)\<close> on a string, with
  \<open>None\<close> for \<^verbatim>\<open>ValueError\<close>; \<open>float_of_int\<close> is \<^verbatim>\<open>float(n)\<close>, with \<open>None\<close> for
  \<^verbatim>\<open>OverflowError\<close>. \<open>num_gt\<close>, \<open>num_eq\<close>, \<open>num_floordiv\<close>, \<open>num_add\<close> and \<open>num_mul\<close> are
  consulted only when a float takes part; on two integers the operations below compute.
  A text is given by the bytes it has in the file system; \<open>encode_utf8\<close> is \<^verbatim>\<open>s.encode()\<close>,
  the bytes of the text, with \<open>None\<close> for \<^verbatim>\<open>UnicodeEncodeError\<close>, which a file name that
  is not UTF-8 (read by \<^verbatim>\<open>os.walk\<close> with surrogate escapes) causes.
\<close>

subsection \<open>Dictionaries\<close>

text \<open>A Python \<^verbatim>\<open>dict\<close> keeps insertion order: an association list with one pair per key.\<close>

definition dict_get :: "'v dict \<Rightarrow> string \<Rightarrow> 'v option" where
  "dict_get d k = map_of d k"

definition dict_get_or :: "'v dict \<Rightarrow> string \<Rightarrow> 'v \<Rightarrow> 'v" where
  "dict_get_or d k dflt = (case map_of d k of None \<Rightarrow> dflt | Some v \<Rightarrow> v)"

definition dict_has :: "'v dict \<Rightarrow> string \<Rightarrow> bool" where
  "dict_has d k = (map_of d k \<noteq> None)"

primrec dict_set :: "'v dict \<Rightarrow> string \<Rightarrow> 'v \<Rightarrow> 'v dict" where
  "dict_set [] k v = [(k, v)]"
| "dict_set (p # ps) k v = (if fst p = k then (k, v) # ps else p # dict_set ps k v)"

primrec dict_update :: "'v dict \<Rightarrow> 'v dict \<Rightarrow> 'v dict" where
  "dict_update d [] = d"
| "dict_update d (p # ps) = dict_update (dict_set d (fst p) (snd p)) ps"

definition dict_index :: "'v dict \<Rightarrow> string \<Rightarrow> py_error + 'v" where
  "dict_index d k = (case map_of d k of None \<Rightarrow> Inl KeyError | Some v \<Rightarrow> Inr v)"

subsection \<open>Formatting\<close>

text \<open>\<^verbatim>\<open>str(n)\<close> for an integer: the decimal digits, after a minus sign when negative.\<close>

definition digit_char :: "int \<Rightarrow> char" where
  "digit_char d = char_of (48 + d)"

function str_digits :: "int \<Rightarrow> string" where
  "str_digits n =
     (if n < 10 then [digit_char n] else str_digits (n div 10) @ [digit_char (n mod 10)])"
  by pat_completeness auto
termination
  by (relation "measure nat") auto

declare str_digits.simps [simp del]

definition str_int :: "int \<Rightarrow> string" where
  "str_int i = (if i < 0 then CHR ''-'' # str_digits (- i) else str_digits i)"

fun py_str :: "pyval \<Rightarrow> string" where
  "py_str (VInt i) = str_int i"
| "py_str (VFloat (PyFloat r)) = r"
| "py_str (VStr s) = s"
| "py_str (VBool b) = (if b then ''True'' else ''False'')"

fun join_with :: "string \<Rightarrow> string list \<Rightarrow> string" where
  "join_with sep [] = []"
| "join_with sep [x] = x"
| "join_with sep (x # y # ys) = x @ sep @ join_with sep (y # ys)"

subsection \<open>Truth, equality, ordering and arithmetic of values\<close>

fun to_num :: "pyval \<Rightarrow> pynum option" where
  "to_num (VInt i) = Some (NInt i)"
| "to_num (VBool b) = Some (NInt (if b then 1 else 0))"
| "to_num (VFloat f) = Some (NFloat f)"
| "to_num (VStr s) = None"

fun of_num :: "pynum \<Rightarrow> pyval" where
  "of_num (NInt i) = VInt i"
| "of_num (NFloat f) = VFloat f"

fun n_gt :: "pybuiltins \<Rightarrow> pynum \<Rightarrow> pynum \<Rightarrow> bool" where
  "n_gt B (NInt a) (NInt b) = (a > b)"
| "n_gt B x y = num_gt B x y"

fun n_eq :: "pybuiltins \<Rightarrow> pynum \<Rightarrow> pynum \<Rightarrow> bool" where
  "n_eq B (NInt a) (NInt b) = (a = b)"
| "n_eq B x y = num_eq B x y"

fun n_floordiv :: "pybuiltins \<Rightarrow> pynum \<Rightarrow> int \<Rightarrow> pynum" where
  "n_floordiv B (NInt a) k = NInt (a div k)"
| "n_floordiv B x k = num_floordiv B x k"

fun n_add :: "pybuiltins \<Rightarrow> pynum \<Rightarrow> int \<Rightarrow> pynum" where
  "n_add B (NInt a) k = NInt (a + k)"
| "n_add B x k = num_add B x k"

fun n_mul :: "pybuiltins \<Rightarrow> pynum \<Rightarrow> int \<Rightarrow> pynum" where
  "n_mul B (NInt a) k = NInt (a * k)"
| "n_mul B x k = num_mul B x k"

text \<open>\<^verbatim>\<open>a > b\<close>: numbers compare, strings compare lexicographically, a string against a
  number raises \<^verbatim>\<open>TypeError\<close>.\<close>

definition py_gt :: "pybuiltins \<Rightarrow> pyval \<Rightarrow> pyval \<Rightarrow> py_error + bool" where
  "py_gt B a b =
     (case (a, b) of
        (VStr s, VStr t) \<Rightarrow> Inr (t < s)
      | _ \<Rightarrow> (case (to_num a, to_num b) of
                (Some x, Some y) \<Rightarrow> Inr (n_gt B x y)
              | _ \<Rightarrow> Inl TypeError))"

text \<open>\<^verbatim>\<open>a != b\<close> never raises: values of unrelated kinds are simply different.\<close>

definition py_ne :: "pybuiltins \<Rightarrow> pyval \<Rightarrow> pyval \<Rightarrow> bool" where
  "py_ne B a b =
     (case (a, b) of
        (VStr s, VStr t) \<Rightarrow> s \<noteq> t
      | _ \<Rightarrow> (case (to_num a, to_num b) of
                (Some x, Some y) \<Rightarrow> \<not> n_eq B x y
              | _ \<Rightarrow> True))"

text \<open>\<^verbatim>\<open>a // k\<close>, \<^verbatim>\<open>a + k\<close> and \<^verbatim>\<open>a * k\<close> with an integer literal \<open>k\<close>; the source applies them
  to numbers only after \<^verbatim>\<open>//\<close>, which a string does not support.\<close>

definition py_floordiv :: "pybuiltins \<Rightarrow> pyval \<Rightarrow> int \<Rightarrow> py_error + pyval" where
  "py_floordiv B a k =
     (case to_num a of None \<Rightarrow> Inl TypeError | Some x \<Rightarrow> Inr (of_num (n_floordiv B x k)))"

definition py_add :: "pybuiltins \<Rightarrow> pyval \<Rightarrow> int \<Rightarrow> py_error + pyval" where
  "py_add B a k =
     (case to_num a of None \<Rightarrow> Inl TypeError | Some x \<Rightarrow> Inr (of_num (n_add B x k)))"

definition py_mul :: "pybuiltins \<Rightarrow> pyval \<Rightarrow> int \<Rightarrow> py_error + pyval" where
  "py_mul B a k =
     (case a of
        VStr s \<Rightarrow> Inr (VStr (concat (replicate (nat k) s)))
      | _ \<Rightarrow> (case to_num a of None \<Rightarrow> Inl TypeError | Some x \<Rightarrow> Inr (of_num (n_mul B x k))))"

text \<open>\<^verbatim>\<open>max(k, a)\<close> with an integer literal first keeps \<open>k\<close> unless \<^verbatim>\<open>a > k\<close>.\<close>

definition py_max :: "pybuiltins \<Rightarrow> int \<Rightarrow> pyval \<Rightarrow> py_error + pyval" where
  "py_max B k a =
     (case py_gt B a (VInt k) of
        Inl e \<Rightarrow> Inl e
      | Inr g \<Rightarrow> Inr (if g then a else VInt k))"

fun truthy :: "pybuiltins \<Rightarrow> pyval \<Rightarrow> bool" where
  "truthy B (VInt i) = (i \<noteq> 0)"
| "truthy B (VBool b) = b"
| "truthy B (VStr s) = (s \<noteq> [])"
| "truthy B (VFloat f) = (\<not> num_eq B (NFloat f) (NInt 0))"

text \<open>\<^verbatim>\<open>float(v)\<close>.\<close>

fun py_float :: "pybuiltins \<Rightarrow> pyval \<Rightarrow> py_error + pyfloat" where
  "py_float B (VFloat f) = Inr f"
| "py_float B (VInt i) =
     (case float_of_int B i of None \<Rightarrow> Inl OverflowError | Some f \<Rightarrow> Inr f)"
| "py_float B (VBool b) =
     (case float_of_int B (if b then 1 else 0) of None \<Rightarrow> Inl OverflowError | Some f \<Rightarrow> Inr f)"
| "py_float B (VStr s) =
     (case float_of_str B s of None \<Rightarrow> Inl ValueError | Some f \<Rightarrow> Inr f)"

text \<open>\<^verbatim>\<open>s.strip()\<close> removes white space at both ends; the characters are those
  \<^verbatim>\<open>str.isspace\<close> accepts below code point 256.\<close>

definition is_space :: "char \<Rightarrow> bool" where
  "is_space c = (let n = (of_char c :: nat) in
     (9 \<le> n \<and> n \<le> 13) \<or> (28 \<le> n \<and> n \<le> 32) \<or> n = 133 \<or> n = 160)"

definition strip :: "string \<Rightarrow> string" where
  "strip s = rev (dropWhile is_space (rev (dropWhile is_space s)))"

subsection \<open>Raising and propagating\<close>

definition bindE :: "'e + 'a \<Rightarrow> ('a \<Rightarrow> 'e + 'b) \<Rightarrow> 'e + 'b" where
  "bindE r f = (case r of Inl e \<Rightarrow> Inl e | Inr x \<Rightarrow> f x)"

section \<open>The configuration layers\<close>

datatype profile = Fast | Final

definition profile_name :: "profile \<Rightarrow> string" where
  "profile_name p = (case p of Fast \<Rightarrow> ''fast'' | Final \<Rightarrow> ''final'')"

text \<open>\<^verbatim>\<open>PROFILE_DEFAULTS\<close> (lines 65-99). The floats \<^verbatim>\<open>1e-4\<close>, \<^verbatim>\<open>0.05\<close>, \<^verbatim>\<open>0.0\<close>, \<^verbatim>\<open>0.1\<close> and
  \<^verbatim>\<open>5.0\<close> appear as Python prints them.\<close>

definition PROFILE_DEFAULTS :: "profile \<Rightarrow> pyval dict" where
  "PROFILE_DEFAULTS p = (case p of
     Fast \<Rightarrow>
       [(''resolution'', VInt 512),
        (''max_train_steps'', VInt 1500),
        (''network_dim'', VInt 32),
        (''network_alpha'', VInt 32),
        (''lr_warmup_steps'', VInt 100),
        (''learning_rate'', VFloat (PyFloat ''0.0001'')),
        (''lr_scheduler'', VStr ''constant_with_warmup''),
        (''noise_offset'', VFloat (PyFloat ''0.05'')),
        (''network_dropout'', VFloat (PyFloat ''0.0'')),
        (''min_snr_gamma'', VInt 0),
        (''gradient_accumulation_steps'', VInt 4),
        (''min_bucket_reso'', VInt 256),
        (''max_bucket_reso'', VInt 768),
        (''optimizer_type'', VStr ''AdamW8bit'')]
   | Final \<Rightarrow>
       [(''resolution'', VInt 768),
        (''max_train_steps'', VInt 2500),
        (''network_dim'', VInt 64),
        (''network_alpha'', VInt 64),
        (''lr_warmup_steps'', VInt 500),
        (''learning_rate'', VFloat (PyFloat ''0.0001'')),
        (''lr_scheduler'', VStr ''cosine_with_restarts''),
        (''lr_scheduler_num_cycles'', VInt 1),
        (''noise_offset'', VFloat (PyFloat ''0.1'')),
        (''network_dropout'', VFloat (PyFloat ''0.1'')),
        (''min_snr_gamma'', VFloat (PyFloat ''5.0'')),
        (''gradient_accumulation_steps'', VInt 4),
        (''min_bucket_reso'', VInt 384),
        (''max_bucket_reso'', VInt 1024),
        (''optimizer_type'', VStr ''AdamW8bit'')])"

text \<open>\<^verbatim>\<open>FLUX_REQUIRED_PARAMS\<close> (lines 102-107), in the order the dictionary literal lists them.\<close>

definition FLUX_REQUIRED_PARAMS :: "pyval dict" where
  "FLUX_REQUIRED_PARAMS =
     [(''guidance_scale'', VFloat (PyFloat ''1.0'')),
      (''timestep_sampling'', VStr ''flux_shift''),
      (''model_prediction_type'', VStr ''raw''),
      (''discrete_flow_shift'', VFloat (PyFloat ''1.0''))]"

subsection \<open>The override file\<close>

text \<open>What \<^verbatim>\<open>tomllib.load\<close> returns: top-level entries that are tables (sections) or scalars.
  The file itself is absent, unparsable, or a document.\<close>

datatype toml_entry = Table "pyval dict" | Scalar pyval

datatype toml_file = Absent | Malformed | Document "toml_entry dict"

definition toml_config_path :: "pybuiltins \<Rightarrow> profile \<Rightarrow> string \<Rightarrow> string" where
  "toml_config_path B p workspace =
     pathlib_join B workspace [''configs'', ''flux_'' @ profile_name p @ ''.toml'']"

text \<open>\<^verbatim>\<open>load_toml_config\<close> (lines 110-120): the messages printed to standard error and the
  outcome.\<close>

definition load_toml_config ::
  "pybuiltins \<Rightarrow> (string \<Rightarrow> toml_file) \<Rightarrow> profile \<Rightarrow> string \<Rightarrow> string list \<times> (py_error + toml_entry dict)" where
  "load_toml_config B files p workspace =
     (let config_path = toml_config_path B p workspace in
      case files config_path of
        Absent \<Rightarrow>
          ([''WARNING: TOML config not found: '' @ config_path,
            ''WARNING: Using profile defaults for '' @ [CHR 0x27] @ profile_name p @ [CHR 0x27]],
           Inr [])
      | Malformed \<Rightarrow> ([], Inl TOMLDecodeError)
      | Document d \<Rightarrow> ([], Inr d))"

text \<open>\<^verbatim>\<open>flatten_toml_config\<close> (lines 123-131).\<close>

fun flatten_into :: "pyval dict \<Rightarrow> toml_entry dict \<Rightarrow> pyval dict" where
  "flatten_into flat [] = flat"
| "flatten_into flat ((section, Table vals) # rest) = flatten_into (dict_update flat vals) rest"
| "flatten_into flat ((section, Scalar v) # rest) = flatten_into (dict_set flat section v) rest"

definition flatten_toml_config :: "toml_entry dict \<Rightarrow> pyval dict" where
  "flatten_toml_config toml_config = flatten_into [] toml_config"

subsection \<open>The runtime overrides\<close>

text \<open>\<^verbatim>\<open>get_env_overrides\<close> (lines 134-176): the table, the two lists of typed keys, one
  iteration of the loop, and the loop.\<close>

definition env_mappings :: "(string \<times> string) list" where
  "env_mappings =
     [(''RANK'', ''network_dim''),
      (''ALPHA'', ''network_alpha''),
      (''MAX_STEPS'', ''max_train_steps''),
      (''RESOLUTION'', ''resolution''),
      (''LEARNING_RATE'', ''learning_rate''),
      (''UNET_LR'', ''learning_rate''),
      (''WARMUP'', ''lr_warmup_steps''),
      (''NOISE_OFFSET'', ''noise_offset''),
      (''DROPOUT'', ''network_dropout''),
      (''SNR_GAMMA'', ''min_snr_gamma''),
      (''GRAD_ACCUM'', ''gradient_accumulation_steps''),
      (''BATCH_SIZE'', ''train_batch_size''),
      (''SEED'', ''seed''),
      (''OPTIMIZER'', ''optimizer_type''),
      (''SCHEDULER'', ''lr_scheduler''),
      (''MIN_BUCKET'', ''min_bucket_reso''),
      (''MAX_BUCKET'', ''max_bucket_reso'')]"

definition int_keys :: "string list" where
  "int_keys =
     [''network_dim'', ''network_alpha'', ''max_train_steps'',
      ''lr_warmup_steps'', ''gradient_accumulation_steps'',
      ''train_batch_size'', ''seed'', ''resolution'',
      ''min_bucket_reso'', ''max_bucket_reso'']"

definition float_keys :: "string list" where
  "float_keys = [''learning_rate'', ''noise_offset'', ''network_dropout'', ''min_snr_gamma'']"

type_synonym environ = "string \<Rightarrow> string option"

definition env_override_step ::
  "pybuiltins \<Rightarrow> environ \<Rightarrow> pyval dict \<Rightarrow> string \<times> string \<Rightarrow> pyval dict" where
  "env_override_step B env overrides m =
     (let env_var = fst m; config_key = snd m in
      case env env_var of
        None \<Rightarrow> overrides
      | Some val \<Rightarrow>
          if strip val = [] then overrides
          else if config_key \<in> set int_keys then
            (case int_of_str B val of
               None \<Rightarrow> overrides
             | Some i \<Rightarrow> dict_set overrides config_key (VInt i))
          else if config_key \<in> set float_keys then
            (case float_of_str B val of
               None \<Rightarrow> overrides
             | Some f \<Rightarrow> dict_set overrides config_key (VFloat f))
          else dict_set overrides config_key (VStr val))"

definition get_env_overrides :: "pybuiltins \<Rightarrow> environ \<Rightarrow> pyval dict" where
  "get_env_overrides B env = foldl (env_override_step B env) [] env_mappings"

section \<open>Validation\<close>

text \<open>\<^verbatim>\<open>validate_config\<close> (lines 179-218) returns what it printed to standard error and either
  the list of warnings or the exception that ended it; \<^verbatim>\<open>sys.exit(1)\<close> is \<open>SystemExit 1\<close>.
  The two \<^verbatim>\<open>try\<close> blocks swallow \<^verbatim>\<open>ValueError\<close> and \<^verbatim>\<open>TypeError\<close> only.\<close>

definition swallow :: "py_error + string list \<Rightarrow> py_error + string list" where
  "swallow r = (case r of
     Inl e \<Rightarrow> (if e = ValueError \<or> e = TypeError then Inr [] else Inl e)
   | Inr ws \<Rightarrow> Inr ws)"

definition alpha_mismatch_warning :: "pyval \<Rightarrow> pyval \<Rightarrow> string" where
  "alpha_mismatch_warning alpha rank =
     ''P0 WARNING: network_alpha ('' @ py_str alpha @ '') != network_dim ('' @ py_str rank @ ''). ''
     @ ''Proceeding due to --allow-alpha-mismatch flag.''"

definition alpha_mismatch_errors :: "pyval \<Rightarrow> pyval \<Rightarrow> string list" where
  "alpha_mismatch_errors alpha rank =
     [''P0 ERROR: network_alpha ('' @ py_str alpha @ '') must equal network_dim ('' @ py_str rank @ '').'',
      ''This is a critical misconfiguration that causes incorrect LR scaling.'',
      ''If intentional, use --allow-alpha-mismatch flag.'']"

definition learning_rate_check :: "pybuiltins \<Rightarrow> pyval dict \<Rightarrow> py_error + string list" where
  "learning_rate_check B config =
     swallow
       (let lr0 = dict_get_or config ''learning_rate'' (VFloat (PyFloat ''0.0001'')) in
        bindE (if truthy B lr0 then py_float B lr0 else Inr (PyFloat ''0.0001''))
          (\<lambda>lr. Inr (if n_gt B (NFloat lr) (NFloat (PyFloat ''0.0005''))
                      then [''WARNING: Learning rate '' @ py_str (VFloat lr)
                              @ '' may be too high (risk of NaN)'']
                      else [])))"

definition noise_offset_check :: "pybuiltins \<Rightarrow> pyval dict \<Rightarrow> py_error + string list" where
  "noise_offset_check B config =
     swallow
       (let noise0 = dict_get_or config ''noise_offset'' (VInt 0) in
        bindE (if truthy B noise0 then map_sum id NFloat (py_float B noise0) else Inr (NInt 0))
          (\<lambda>noise. Inr (if n_gt B noise (NFloat (PyFloat ''0.15''))
                         then [''WARNING: noise_offset '' @ py_str (of_num noise)
                                 @ '' > 0.15 may cause artifacts'']
                         else [])))"

definition validate_config ::
  "pybuiltins \<Rightarrow> pyval dict \<Rightarrow> bool \<Rightarrow> string list \<times> (py_error + string list)" where
  "validate_config B config allow_alpha_mismatch =
     (let rank = dict_get_or config ''network_dim'' (VInt 32);
          alpha = dict_get_or config ''network_alpha'' rank in
      if py_ne B alpha rank \<and> \<not> allow_alpha_mismatch
      then (alpha_mismatch_errors alpha rank, Inl (SystemExit 1))
      else
        ([],
         bindE (Inr (if py_ne B alpha rank then [alpha_mismatch_warning alpha rank] else []))
           (\<lambda>w0. bindE (learning_rate_check B config)
             (\<lambda>w1. bindE (noise_offset_check B config)
               (\<lambda>w2. Inr (w0 @ w1 @ w2))))))"

section \<open>Command synthesis\<close>

text \<open>
  \<^verbatim>\<open>build_command\<close> (lines 221-393). The tokens are collected in \<^verbatim>\<open>cmd_parts\<close>; a missing key of
  the path table raises \<^verbatim>\<open>KeyError\<close>, a comparison of a string with a number raises
  \<^verbatim>\<open>TypeError\<close>, and \<^verbatim>\<open>float(lr)\<close> may raise as well. The \<^verbatim>\<open>profile\<close> argument of the source
  is never read and is left out. \<open>path_exists\<close> is \<^verbatim>\<open>os.path.exists\<close> on the file system of
  the run.
\<close>

definition flag :: "string \<Rightarrow> pyval \<Rightarrow> string" where
  "flag name v = ''--'' @ name @ ''='' @ py_str v"

definition flux_parts :: "string list" where
  "flux_parts = map (\<lambda>(param, v). flag param v) FLUX_REQUIRED_PARAMS"

definition scheduler_is_cyclical :: "pyval dict \<Rightarrow> bool" where
  "scheduler_is_cyclical config =
     (case dict_get config ''lr_scheduler'' of
        Some (VStr s) \<Rightarrow> s \<in> set [''cosine_with_restarts'', ''cosine'']
      | _ \<Rightarrow> False)"

definition cmd_parts ::
  "pybuiltins \<Rightarrow> pyval dict \<Rightarrow> string dict \<Rightarrow> string \<Rightarrow> bool \<Rightarrow> py_error + string list" where
  "cmd_parts B config paths run_name fp8_base =
     bindE (dict_index paths ''sdscripts'') (\<lambda>sdscripts.
     bindE (dict_index paths ''model'') (\<lambda>model.
     bindE (dict_index paths ''text_encoder'') (\<lambda>text_encoder.
     bindE (dict_index paths ''data'') (\<lambda>data.
     bindE (dict_index paths ''output'') (\<lambda>output.
     bindE (py_gt B (dict_get_or config ''network_dropout'' (VInt 0)) (VInt 0)) (\<lambda>dropout_pos.
     bindE (let lr0 = dict_get_or config ''learning_rate'' (VFloat (PyFloat ''0.0001'')) in
            if truthy B lr0 then py_float B lr0 else Inr (PyFloat ''0.0001'')) (\<lambda>lr.
     bindE (py_gt B (dict_get_or config ''gradient_accumulation_steps'' (VInt 4)) (VInt 1)) (\<lambda>accum_gt1.
     bindE (py_gt B (dict_get_or config ''noise_offset'' (VInt 0)) (VInt 0)) (\<lambda>noise_pos.
     bindE (py_gt B (dict_get_or config ''min_snr_gamma'' (VInt 0)) (VInt 0)) (\<lambda>snr_pos.
     bindE (dict_index paths ''sample_prompts'') (\<lambda>sample_prompts.
     bindE (dict_index paths ''logs'') (\<lambda>logs.
     bindE (py_gt B (dict_get_or config ''max_data_loader_n_workers'' (VInt 2)) (VInt 0)) (\<lambda>workers_pos.
     Inr (
       [''accelerate'', ''launch'', ''--num_cpu_threads_per_process'', ''1'',
        sdscripts @ ''/flux_train_network.py'']
       @ [''--pretrained_model_name_or_path='' @ model @ ''/flux1-dev.safetensors'',
          ''--clip_l='' @ text_encoder @ ''/clip_l.safetensors'',
          ''--t5xxl='' @ text_encoder @ ''/t5xxl_fp16.safetensors'',
          ''--ae='' @ model @ ''/ae.safetensors'']
       @ [''--train_data_dir='' @ data]
       @ [''--output_dir='' @ output,
          ''--output_name='' @ run_name,
          ''--save_model_as=safetensors'']
       @ [''--network_module=networks.lora_flux'',
          flag ''network_dim'' (dict_get_or config ''network_dim'' (VInt 32)),
          flag ''network_alpha''
            (dict_get_or config ''network_alpha'' (dict_get_or config ''network_dim'' (VInt 32)))]
       @ (if dropout_pos
          then [flag ''network_dropout'' (dict_get_or config ''network_dropout'' (VInt 0))]
          else [])
       @ [flag ''learning_rate'' (VFloat lr),
          flag ''optimizer_type'' (dict_get_or config ''optimizer_type'' (VStr ''AdamW8bit'')),
          flag ''lr_scheduler'' (dict_get_or config ''lr_scheduler'' (VStr ''constant_with_warmup'')),
          flag ''lr_warmup_steps'' (dict_get_or config ''lr_warmup_steps'' (VInt 100))]
       @ (if scheduler_is_cyclical config
          then [flag ''lr_scheduler_num_cycles''
                  (dict_get_or config ''lr_scheduler_num_cycles'' (VInt 1))]
          else [])
       @ (if accum_gt1
          then [flag ''gradient_accumulation_steps''
                  (dict_get_or config ''gradient_accumulation_steps'' (VInt 4))]
          else [])
       @ [''--sdpa'',
          flag ''mixed_precision'' (dict_get_or config ''mixed_precision'' (VStr ''bf16'')),
          ''--gradient_checkpointing'']
       @ (if fp8_base then [''--fp8_base''] else [])
       @ flux_parts
       @ [flag ''blocks_to_swap'' (dict_get_or config ''blocks_to_swap'' (VInt 18)),
          ''--cache_text_encoder_outputs'',
          ''--cache_latents'',
          ''--cache_latents_to_disk'']
       @ [flag ''resolution'' (dict_get_or config ''resolution'' (VInt 512)),
          ''--enable_bucket'',
          flag ''min_bucket_reso'' (dict_get_or config ''min_bucket_reso'' (VInt 256)),
          flag ''max_bucket_reso'' (dict_get_or config ''max_bucket_reso'' (VInt 1024)),
          ''--bucket_reso_steps=64'']
       @ [flag ''train_batch_size'' (dict_get_or config ''train_batch_size'' (VInt 1)),
          flag ''max_train_steps'' (dict_get_or config ''max_train_steps'' (VInt 1500))]
       @ (if noise_pos
          then [flag ''noise_offset'' (dict_get_or config ''noise_offset'' (VInt 0))]
          else [])
       @ (if snr_pos
          then [flag ''min_snr_gamma'' (dict_get_or config ''min_snr_gamma'' (VInt 0))]
          else [])
       @ [''--caption_extension=.txt'',
          flag ''keep_tokens'' (dict_get_or config ''keep_tokens'' (VInt 1))]
       @ [flag ''save_every_n_steps'' (dict_get_or config ''save_every_n_steps'' (VInt 500)),
          flag ''save_precision'' (dict_get_or config ''save_precision'' (VStr ''bf16''))]
       @ [flag ''sample_every_n_steps'' (dict_get_or config ''sample_every_n_steps'' (VInt 250)),
          ''--sample_prompts='' @ sample_prompts,
          flag ''sample_sampler'' (dict_get_or config ''sample_sampler'' (VStr ''euler''))]
       @ [''--logging_dir='' @ logs,
          flag ''seed'' (dict_get_or config ''seed'' (VInt 42))]
       @ (if workers_pos
          then [flag ''max_data_loader_n_workers''
                  (dict_get_or config ''max_data_loader_n_workers'' (VInt 2))]
          else [])))))))))))))))"

text \<open>Lines 371-377: the tokens the resume source adds and what is printed to standard error.
  \<^verbatim>\<open>if resume_from:\<close> is false for \<^verbatim>\<open>None\<close> and for the empty string.\<close>

definition resume_given :: "string option \<Rightarrow> bool" where
  "resume_given resume_from = (case resume_from of None \<Rightarrow> False | Some r \<Rightarrow> r \<noteq> [])"

definition resume_parts :: "(string \<Rightarrow> bool) \<Rightarrow> string option \<Rightarrow> string list \<times> string list" where
  "resume_parts path_exists resume_from =
     (case resume_from of
        None \<Rightarrow> ([], [])
      | Some r \<Rightarrow>
          if r = [] then ([], [])
          else if path_exists r
          then ([''--network_weights='' @ r], [''[RESUME] Resuming from: '' @ r])
          else ([], [''WARNING: Resume checkpoint not found: '' @ r]))"

text \<open>Lines 379-393: a token with \<^verbatim>\<open>=\<close> is split at the first one, and its value is wrapped in
  double quotes when it holds a space.\<close>

definition quote_part :: "string \<Rightarrow> string" where
  "quote_part part =
     (if CHR ''='' \<in> set part
      then (let key = takeWhile (\<lambda>c. c \<noteq> CHR ''='') part;
                val = tl (dropWhile (\<lambda>c. c \<noteq> CHR ''='') part)
            in if CHR '' '' \<in> set val
               then key @ ''='' @ [CHR 0x22] @ val @ [CHR 0x22]
               else part)
      else part)"

definition build_command ::
  "pybuiltins \<Rightarrow> (string \<Rightarrow> bool) \<Rightarrow> pyval dict \<Rightarrow> string dict \<Rightarrow> string \<Rightarrow> string option \<Rightarrow> bool
     \<Rightarrow> py_error + (string \<times> string list)" where
  "build_command B path_exists config paths run_name resume_from fp8_base =
     bindE (cmd_parts B config paths run_name fp8_base) (\<lambda>parts.
       let r = resume_parts path_exists resume_from in
       Inr (join_with '' '' (map quote_part (parts @ fst r)), snd r))"

section \<open>The reproducibility record\<close>

text \<open>
  \<^verbatim>\<open>compute_dataset_hash\<close> (lines 455-478) reads the file system: a path leads to nothing, to
  a file, or to a directory of named entries. A file carries what \<^verbatim>\<open>os.stat\<close> gives for it,
  the size and the modification time cut to an integer, or \<open>None\<close> when \<^verbatim>\<open>os.stat\<close> raises
  \<^verbatim>\<open>OSError\<close>.
\<close>

datatype fs_node = File "(int \<times> int) option" | Dir "(string \<times> fs_node) list"

definition rel_join :: "string \<Rightarrow> string \<Rightarrow> string" where
  "rel_join root name = (if root = [] then name else root @ ''/'' @ name)"

fun files_in :: "(string \<times> fs_node) list \<Rightarrow> (string \<times> (int \<times> int) option) list" where
  "files_in [] = []"
| "files_in ((name, File st) # es) = (name, st) # files_in es"
| "files_in ((name, Dir sub) # es) = files_in es"

text \<open>\<^verbatim>\<open>os.walk\<close>, top down: each directory with its files, then its subdirectories in turn.
  \<open>root\<close> is the directory's path relative to the dataset directory.\<close>

fun walk :: "string \<Rightarrow> (string \<times> fs_node) list \<Rightarrow> (string \<times> (string \<times> (int \<times> int) option) list) list"
  and walk_subdirs :: "string \<Rightarrow> (string \<times> fs_node) list \<Rightarrow> (string \<times> (string \<times> (int \<times> int) option) list) list"
where
  "walk root entries = (root, files_in entries) # walk_subdirs root entries"
| "walk_subdirs root [] = []"
| "walk_subdirs root ((name, File st) # es) = walk_subdirs root es"
| "walk_subdirs root ((name, Dir sub) # es) = walk (rel_join root name) sub @ walk_subdirs root es"

text \<open>The inner loop over \<^verbatim>\<open>sorted(files)\<close>: a file whose \<^verbatim>\<open>os.stat\<close> fails is skipped.\<close>

fun stat_lines :: "string \<Rightarrow> (string \<times> (int \<times> int) option) list \<Rightarrow> string list" where
  "stat_lines root [] = []"
| "stat_lines root ((f, None) # fs) = stat_lines root fs"
| "stat_lines root ((f, Some (st_size, st_mtime)) # fs) =
     (rel_join root f @ '':'' @ str_int st_size @ '':'' @ str_int st_mtime)
     # stat_lines root fs"

definition file_info :: "(string \<times> fs_node) list \<Rightarrow> string list" where
  "file_info entries =
     concat (map (\<lambda>(root, files). stat_lines root (sort_key fst files)) (walk [] entries))"

definition hex_digit :: "nat \<Rightarrow> char" where
  "hex_digit n = (if n < 10 then char_of (48 + n) else char_of (87 + n))"

definition hexdigest :: "128 word \<Rightarrow> string" where
  "hexdigest w = map (\<lambda>i. hex_digit (unat (take_bit 4 (drop_bit (4 * (31 - i)) w)))) [0..<32]"

definition compute_dataset_hash ::
  "pybuiltins \<Rightarrow> (string \<Rightarrow> fs_node option) \<Rightarrow> string \<Rightarrow> py_error + string" where
  "compute_dataset_hash B lookup data_dir =
     (case lookup data_dir of
        Some (Dir entries) \<Rightarrow>
          (let info = file_info entries in
           if info = [] then Inr ''empty_dataset''
           else (case encode_utf8 B (join_with [CHR 0x0A] (sort info)) of
                   None \<Rightarrow> Inl UnicodeEncodeError
                 | Some bytes \<Rightarrow> Inr (hexdigest (md5 B bytes))))
      | _ \<Rightarrow> Inr ''dataset_not_found'')"

text \<open>\<^verbatim>\<open>generate_repro_info\<close> (lines 396-452). What the clock, the host and the two subprocesses
  answer is given: for \<^verbatim>\<open>git\<close> the commit and the text of \<^verbatim>\<open>git status --porcelain\<close>, for
  \<^verbatim>\<open>nvidia-smi\<close> its output, each \<open>None\<close> when the call fails.\<close>

record host_probe =
  timestamp_utc :: string
  hostname :: string
  git_probe :: "(string \<times> string) option"
  gpu_probe :: "string option"
  python_version :: string

record repro_info =
  repro_timestamp_utc :: string
  repro_run_name :: string
  repro_profile :: string
  repro_hostname :: string
  repro_git_commit :: string
  repro_git_dirty :: "bool option"
  repro_gpu :: string
  repro_python_version :: string
  repro_hyperparameters :: "(string \<times> pyval option) list"
  repro_dataset_hash :: "string option"

definition generate_repro_info :: "host_probe \<Rightarrow> pyval dict \<Rightarrow> string \<Rightarrow> profile \<Rightarrow> repro_info" where
  "generate_repro_info host config run_name p =
     \<lparr> repro_timestamp_utc = timestamp_utc host,
       repro_run_name = run_name,
       repro_profile = profile_name p,
       repro_hostname = hostname host,
       repro_git_commit = (case git_probe host of None \<Rightarrow> ''unknown'' | Some g \<Rightarrow> fst g),
       repro_git_dirty = (case git_probe host of None \<Rightarrow> None | Some g \<Rightarrow> Some (snd g \<noteq> [])),
       repro_gpu = (case gpu_probe host of
                      None \<Rightarrow> ''unknown''
                    | Some g \<Rightarrow> if g = [] then ''unknown'' else takeWhile (\<lambda>c. c \<noteq> CHR 0x0A) g),
       repro_python_version = python_version host,
       repro_hyperparameters =
         map (\<lambda>k. (k, dict_get config k))
           [''network_dim'', ''network_alpha'', ''max_train_steps'', ''resolution'',
            ''learning_rate'', ''noise_offset'', ''network_dropout'', ''min_snr_gamma'',
            ''gradient_accumulation_steps'', ''seed''],
       repro_dataset_hash = None \<rparr>"

section \<open>The run\<close>

text \<open>
  \<^verbatim>\<open>main\<close> (lines 481-632) after \<^verbatim>\<open>argparse\<close> has read the command line. The world outside
  the process is given: the environment, where the script lies, the override files, which
  paths exist, the dataset directory, the clock and the host.
\<close>

record cli_args =
  arg_profile :: profile
  arg_dry_run :: bool
  arg_output_json :: bool
  arg_allow_alpha_mismatch :: bool
  arg_workspace :: "string option"
  arg_run_name :: "string option"
  arg_show_repro :: bool

record world =
  w_environ :: environ
  w_script_dir_name :: string
  w_script_dir_parent :: string
  w_toml_files :: "string \<Rightarrow> toml_file"
  w_path_exists :: "string \<Rightarrow> bool"
  w_fs_lookup :: "string \<Rightarrow> fs_node option"
  w_clock_stamp :: string
  w_host :: host_probe

record json_output =
  jo_profile :: string
  jo_run_name :: string
  jo_config :: "pyval dict"
  jo_paths :: "string dict"
  jo_command :: string
  jo_resume_from :: "string option"
  jo_fp8_base :: bool

datatype stdout_item = PrintCommand string | PrintJson json_output | PrintRepro repro_info

record run_result =
  status :: "py_error + unit"
  stdout :: "stdout_item list"
  stderr :: "string list"

text \<open>The exit status of the process: \<^verbatim>\<open>sys.exit(n)\<close> gives \<open>n\<close>, an exception that nobody
  catches gives 1, a normal end gives 0.\<close>

definition exit_status :: "run_result \<Rightarrow> int" where
  "exit_status r = (case status r of Inr u \<Rightarrow> 0 | Inl (SystemExit n) \<Rightarrow> n | Inl e \<Rightarrow> 1)"

definition env_get_or :: "environ \<Rightarrow> string \<Rightarrow> string \<Rightarrow> string" where
  "env_get_or env k dflt = (case env k of None \<Rightarrow> dflt | Some v \<Rightarrow> v)"

text \<open>The module constants of lines 52-59, read from the environment when the script loads.\<close>

definition DEFAULT_WORKSPACE :: "environ \<Rightarrow> string" where
  "DEFAULT_WORKSPACE env = env_get_or env ''WORKSPACE'' ''/workspace/lora_training''"

definition DEFAULT_SDSCRIPTS :: "environ \<Rightarrow> string" where
  "DEFAULT_SDSCRIPTS env = env_get_or env ''SDSCRIPTS'' ''/opt/sd-scripts''"

definition DEFAULT_MODEL_PATH :: "environ \<Rightarrow> string" where
  "DEFAULT_MODEL_PATH env = env_get_or env ''MODEL_PATH'' ''/workspace/models/flux1-dev''"

definition DEFAULT_TEXT_ENCODER_PATH :: "environ \<Rightarrow> string" where
  "DEFAULT_TEXT_ENCODER_PATH env =
     env_get_or env ''TEXT_ENCODER_PATH'' ''/workspace/models/text_encoders''"

definition DEFAULT_DATA_DIR :: "environ \<Rightarrow> string" where
  "DEFAULT_DATA_DIR env = env_get_or env ''DATA_DIR'' (DEFAULT_WORKSPACE env @ ''/data/subject'')"

definition DEFAULT_OUTPUT_DIR :: "environ \<Rightarrow> string" where
  "DEFAULT_OUTPUT_DIR env = env_get_or env ''OUT_DIR'' (DEFAULT_WORKSPACE env @ ''/output'')"

definition DEFAULT_LOG_DIR :: "environ \<Rightarrow> string" where
  "DEFAULT_LOG_DIR env = env_get_or env ''LOG_DIR'' (DEFAULT_WORKSPACE env @ ''/logs'')"

definition DEFAULT_SAMPLE_PROMPTS :: "environ \<Rightarrow> string" where
  "DEFAULT_SAMPLE_PROMPTS env =
     env_get_or env ''SAMPLE_PROMPTS'' (DEFAULT_WORKSPACE env @ ''/configs/sample_prompts.txt'')"

text \<open>Lines 511-517.\<close>

definition resolve_workspace :: "cli_args \<Rightarrow> world \<Rightarrow> string" where
  "resolve_workspace args w =
     (let workspace =
            (case arg_workspace args of
               Some a \<Rightarrow> if a \<noteq> [] then a
                         else env_get_or (w_environ w) ''WORKSPACE'' (DEFAULT_WORKSPACE (w_environ w))
             | None \<Rightarrow> env_get_or (w_environ w) ''WORKSPACE'' (DEFAULT_WORKSPACE (w_environ w)))
      in if w_script_dir_name w = ''scripts'' then w_script_dir_parent w else workspace)"

text \<open>Lines 523-531: defaults, then the file, then the environment.\<close>

definition merge_layers :: "profile \<Rightarrow> pyval dict \<Rightarrow> pyval dict \<Rightarrow> pyval dict" where
  "merge_layers p flat_config env_overrides =
     dict_update (dict_update (PROFILE_DEFAULTS p) flat_config) env_overrides"

text \<open>Lines 533-539: the scaling parameter follows the rank.\<close>

definition sync_alpha :: "pyval dict \<Rightarrow> pyval dict \<Rightarrow> pyval dict \<Rightarrow> py_error + pyval dict" where
  "sync_alpha config flat_config env_overrides =
     (if dict_has env_overrides ''network_dim'' \<and> \<not> dict_has env_overrides ''network_alpha''
      then bindE (dict_index config ''network_dim'')
             (\<lambda>d. Inr (dict_set config ''network_alpha'' d))
      else if \<not> dict_has env_overrides ''network_alpha'' \<and> \<not> dict_has flat_config ''network_alpha''
      then bindE (dict_index config ''network_dim'')
             (\<lambda>d. Inr (dict_set config ''network_alpha'' d))
      else Inr config)"

text \<open>Lines 543-549: the upper bucket bound. The result is the configuration and what was
  printed to standard error.\<close>

definition adjust_max_bucket :: "pybuiltins \<Rightarrow> pyval dict \<Rightarrow> py_error + (pyval dict \<times> string list)" where
  "adjust_max_bucket B config =
     (let resolution = dict_get_or config ''resolution'' (VInt 512);
          max_bucket = dict_get_or config ''max_bucket_reso'' (VInt 1024) in
      bindE (py_gt B resolution max_bucket) (\<lambda>exceeds.
        if exceeds then
          bindE (py_floordiv B resolution 64) (\<lambda>q.
          bindE (py_add B q 2) (\<lambda>q2.
          bindE (py_mul B q2 64) (\<lambda>new_max_bucket.
            Inr (dict_set config ''max_bucket_reso'' new_max_bucket,
                 [''[AUTO] Adjusted max_bucket_reso: '' @ py_str max_bucket @ '' -> ''
                  @ py_str new_max_bucket @ '' (must be >= resolution '' @ py_str resolution
                  @ '')'']))))
        else Inr (config, [])))"

text \<open>Lines 551-556: the lower bucket bound, with the \<^verbatim>\<open>resolution\<close> read at line 543.\<close>

definition adjust_min_bucket ::
  "pybuiltins \<Rightarrow> pyval \<Rightarrow> pyval dict \<Rightarrow> py_error + (pyval dict \<times> string list)" where
  "adjust_min_bucket B resolution config =
     (let min_bucket = dict_get_or config ''min_bucket_reso'' (VInt 256) in
      bindE (py_floordiv B resolution 2) (\<lambda>half.
      bindE (py_gt B min_bucket half) (\<lambda>exceeds.
        if exceeds then
          bindE (py_floordiv B resolution 4) (\<lambda>q4.
          bindE (py_floordiv B q4 64) (\<lambda>q.
          bindE (py_mul B q 64) (\<lambda>m.
          bindE (py_max B 256 m) (\<lambda>new_min_bucket.
            Inr (dict_set config ''min_bucket_reso'' new_min_bucket,
                 [''[AUTO] Adjusted min_bucket_reso: '' @ py_str min_bucket @ '' -> ''
                  @ py_str new_min_bucket])))))
        else Inr (config, []))))"

text \<open>Lines 541-556 together: what was printed, and the configuration or the exception.\<close>

definition adjust_buckets :: "pybuiltins \<Rightarrow> pyval dict \<Rightarrow> string list \<times> (py_error + pyval dict)" where
  "adjust_buckets B config =
     (case adjust_max_bucket B config of
        Inl e \<Rightarrow> ([], Inl e)
      | Inr (config1, out1) \<Rightarrow>
          (case adjust_min_bucket B (dict_get_or config ''resolution'' (VInt 512)) config1 of
             Inl e \<Rightarrow> (out1, Inl e)
           | Inr (config2, out2) \<Rightarrow> (out1 @ out2, Inr config2)))"

text \<open>Lines 563-585.\<close>

definition make_run_name :: "cli_args \<Rightarrow> world \<Rightarrow> string" where
  "make_run_name args w =
     (let dflt = env_get_or (w_environ w) ''RUN_NAME''
                   (''flux_'' @ profile_name (arg_profile args) @ ''_'' @ w_clock_stamp w) in
      case arg_run_name args of
        Some r \<Rightarrow> if r \<noteq> [] then r else dflt
      | None \<Rightarrow> dflt)"

definition make_paths :: "environ \<Rightarrow> string \<Rightarrow> string dict" where
  "make_paths env workspace =
     [(''workspace'', workspace),
      (''sdscripts'', env_get_or env ''SDSCRIPTS'' (DEFAULT_SDSCRIPTS env)),
      (''model'', env_get_or env ''MODEL_PATH'' (DEFAULT_MODEL_PATH env)),
      (''text_encoder'', env_get_or env ''TEXT_ENCODER_PATH'' (DEFAULT_TEXT_ENCODER_PATH env)),
      (''data'', env_get_or env ''DATA_DIR'' (DEFAULT_DATA_DIR env)),
      (''output'', env_get_or env ''OUT_DIR'' (DEFAULT_OUTPUT_DIR env)),
      (''logs'', env_get_or env ''LOG_DIR'' (DEFAULT_LOG_DIR env)),
      (''sample_prompts'', env_get_or env ''SAMPLE_PROMPTS'' (DEFAULT_SAMPLE_PROMPTS env))]"

definition resume_from_env :: "environ \<Rightarrow> string option" where
  "resume_from_env env =
     (let resume_from = env_get_or env ''RESUME_FROM'' [] in
      if resume_from \<noteq> [] then Some resume_from else None)"

definition fp8_base_env :: "environ \<Rightarrow> bool" where
  "fp8_base_env env = (env_get_or env ''FP8_BASE'' ''0'' = ''1'')"

text \<open>Lines 613-629: what the dry run prints to standard error before the command.\<close>

definition py_str_opt :: "pyval option \<Rightarrow> string" where
  "py_str_opt v = (case v of None \<Rightarrow> ''None'' | Some x \<Rightarrow> py_str x)"

definition dry_run_report ::
  "profile \<Rightarrow> string \<Rightarrow> pyval dict \<Rightarrow> bool \<Rightarrow> string option \<Rightarrow> string list" where
  "dry_run_report p run_name config fp8_base resume_from =
     [replicate 80 (CHR ''=''),
      ''DRY RUN - Profile: '' @ profile_name p,
      ''Run Name: '' @ run_name,
      replicate 80 (CHR ''=''),
      [CHR 0x0A] @ ''Key Configuration (P0/P1 fixes applied):'',
      ''  network_dim:                 '' @ py_str_opt (dict_get config ''network_dim''),
      ''  network_alpha:               '' @ py_str_opt (dict_get config ''network_alpha'')
        @ '' (P0: should match dim)'',
      ''  noise_offset:                '' @ py_str_opt (dict_get config ''noise_offset'')
        @ '' (P0: now wired)'',
      ''  network_dropout:             '' @ py_str_opt (dict_get config ''network_dropout'')
        @ '' (P0: now wired)'',
      ''  min_snr_gamma:               '' @ py_str_opt (dict_get config ''min_snr_gamma'')
        @ '' (P0: now wired)'',
      ''  gradient_accumulation_steps: ''
        @ py_str_opt (dict_get config ''gradient_accumulation_steps'') @ '' (P1: now wired)'',
      ''  fp8_base:                    '' @ py_str (VBool fp8_base) @ '' (P1: toggle support)'',
      ''  resume_from:                 ''
        @ (case resume_from of None \<Rightarrow> ''None'' | Some r \<Rightarrow> r) @ '' (P1: resume support)'',
      replicate 80 (CHR ''=''),
      [CHR 0x0A] @ ''Generated Command:'']"

text \<open>Lines 597-632: the output mode.\<close>

definition emit ::
  "pybuiltins \<Rightarrow> cli_args \<Rightarrow> world \<Rightarrow> pyval dict \<Rightarrow> string dict \<Rightarrow> string \<Rightarrow> string
     \<Rightarrow> py_error + (stdout_item list \<times> string list)" where
  "emit B args w config paths run_name command =
     (let env = w_environ w in
      if arg_output_json args then
        Inr ([PrintJson \<lparr> jo_profile = profile_name (arg_profile args),
                          jo_run_name = run_name,
                          jo_config = config,
                          jo_paths = paths,
                          jo_command = command,
                          jo_resume_from = resume_from_env env,
                          jo_fp8_base = fp8_base_env env \<rparr>], [])
      else if arg_show_repro args then
        bindE (dict_index paths ''data'') (\<lambda>data.
        bindE (compute_dataset_hash B (w_fs_lookup w) data) (\<lambda>dataset_hash.
          Inr ([PrintRepro ((generate_repro_info (w_host w) config run_name (arg_profile args))
                  \<lparr> repro_dataset_hash := Some dataset_hash \<rparr>)], [])))
      else if arg_dry_run args then
        Inr ([PrintCommand command],
             dry_run_report (arg_profile args) run_name config (fp8_base_env env)
               (resume_from_env env))
      else Inr ([PrintCommand command], []))"

definition main :: "pybuiltins \<Rightarrow> cli_args \<Rightarrow> world \<Rightarrow> run_result" where
  "main B args w =
     (let env = w_environ w;
          workspace = resolve_workspace args w;
          loaded = load_toml_config B (w_toml_files w) (arg_profile args) workspace in
      case snd loaded of
        Inl e \<Rightarrow> \<lparr> status = Inl e, stdout = [], stderr = fst loaded \<rparr>
      | Inr toml_config \<Rightarrow>
      (let flat_config = flatten_toml_config toml_config;
           env_overrides = get_env_overrides B env;
           config0 = merge_layers (arg_profile args) flat_config env_overrides in
       case sync_alpha config0 flat_config env_overrides of
         Inl e \<Rightarrow> \<lparr> status = Inl e, stdout = [], stderr = fst loaded \<rparr>
       | Inr config1 \<Rightarrow>
       (let adjusted = adjust_buckets B config1 in
        case snd adjusted of
          Inl e \<Rightarrow> \<lparr> status = Inl e, stdout = [], stderr = fst loaded @ fst adjusted \<rparr>
        | Inr config \<Rightarrow>
        (let validated = validate_config B config (arg_allow_alpha_mismatch args) in
         case snd validated of
           Inl e \<Rightarrow> \<lparr> status = Inl e, stdout = [],
                       stderr = fst loaded @ fst adjusted @ fst validated \<rparr>
         | Inr warnings \<Rightarrow>
         (let run_name = make_run_name args w;
              paths = make_paths env workspace in
          case build_command B (w_path_exists w) config paths run_name (resume_from_env env)
                 (fp8_base_env env) of
            Inl e \<Rightarrow> \<lparr> status = Inl e, stdout = [],
                        stderr = fst loaded @ fst adjusted @ fst validated @ warnings \<rparr>
          | Inr built \<Rightarrow>
          (case emit B args w config paths run_name (fst built) of
             Inl e \<Rightarrow> \<lparr> status = Inl e, stdout = [],
                         stderr = fst loaded @ fst adjusted @ fst validated @ warnings
                                  @ snd built \<rparr>
           | Inr shown \<Rightarrow>
               \<lparr> status = Inr (),
                 stdout = fst shown,
                 stderr = fst loaded @ fst adjusted @ fst validated @ warnings @ snd built
                          @ snd shown \<rparr>))))))"

section \<open>A stand-in for the interpreter\<close>

text \<open>
  To run the model on concrete inputs the builtins need values. This stand-in reads and
  compares plain decimal numerals (an optional sign, digits, an optional fraction), which
  is what the profiles and the examples use, and encodes the texts that are UTF-8; every theorem below that names no stand-in
  holds for any builtins. The digest is a checksum, not MD5: no statement depends on what
  the digest computes.
\<close>

definition is_digit :: "char \<Rightarrow> bool" where
  "is_digit c = (let n = (of_char c :: nat) in 48 \<le> n \<and> n \<le> 57)"

definition nat_of_digits :: "string \<Rightarrow> nat" where
  "nat_of_digits ds = foldl (\<lambda>a c. 10 * a + ((of_char c :: nat) - 48)) 0 ds"

definition split_sign :: "string \<Rightarrow> bool \<times> string" where
  "split_sign s = (case s of
     [] \<Rightarrow> (False, [])
   | c # r \<Rightarrow> if c = CHR ''-'' then (True, r) else if c = CHR ''+'' then (False, r) else (False, s))"

definition dec_of_text :: "string \<Rightarrow> (int \<times> nat) option" where
  "dec_of_text s =
     (let body = snd (split_sign s);
          ip = takeWhile (\<lambda>c. c \<noteq> CHR ''.'') body;
          rest = dropWhile (\<lambda>c. c \<noteq> CHR ''.'') body;
          fp = (if rest = [] then [] else tl rest)
      in if ip \<noteq> [] \<and> list_all is_digit ip \<and> list_all is_digit fp \<and> (rest = [] \<or> fp \<noteq> [])
         then Some ((if fst (split_sign s) then - 1 else 1) * int (nat_of_digits (ip @ fp)), length fp)
         else None)"

definition text_of_dec :: "int \<Rightarrow> nat \<Rightarrow> string" where
  "text_of_dec m s =
     (let ds = str_digits \<bar>m\<bar>;
          padded = replicate (Suc s - length ds) (CHR ''0'') @ ds;
          ip = take (length padded - s) padded;
          fp = rev (dropWhile (\<lambda>c. c = CHR ''0'') (rev (drop (length padded - s) padded)))
      in (if m < 0 then ''-'' else []) @ ip @ ''.'' @ (if fp = [] then ''0'' else fp))"

definition dec_of_num :: "pynum \<Rightarrow> (int \<times> nat) option" where
  "dec_of_num x = (case x of NInt i \<Rightarrow> Some (i, 0) | NFloat (PyFloat r) \<Rightarrow> dec_of_text r)"

definition dec_arith :: "(int \<Rightarrow> nat \<Rightarrow> int \<times> nat) \<Rightarrow> pynum \<Rightarrow> pynum" where
  "dec_arith f x = (case dec_of_num x of
     None \<Rightarrow> x
   | Some d \<Rightarrow> (let r = f (fst d) (snd d) in NFloat (PyFloat (text_of_dec (fst r) (snd r)))))"

text \<open>Whether a list of bytes is well-formed UTF-8.\<close>

definition utf8_cont :: "int \<Rightarrow> bool" where
  "utf8_cont c = (128 \<le> c \<and> c \<le> 191)"

fun utf8_valid :: "int list \<Rightarrow> bool" where
  "utf8_valid [] = True"
| "utf8_valid (b # bs) =
     (if b < 128 then utf8_valid bs
      else if 194 \<le> b \<and> b \<le> 223 then
        (case bs of c # r \<Rightarrow> utf8_cont c \<and> utf8_valid r | _ \<Rightarrow> False)
      else if 224 \<le> b \<and> b \<le> 239 then
        (case bs of
           c # d # r \<Rightarrow> utf8_cont c \<and> utf8_cont d \<and> (b = 224 \<longrightarrow> 160 \<le> c)
                        \<and> (b = 237 \<longrightarrow> c \<le> 159) \<and> utf8_valid r
         | _ \<Rightarrow> False)
      else if 240 \<le> b \<and> b \<le> 244 then
        (case bs of
           c # d # e # r \<Rightarrow> utf8_cont c \<and> utf8_cont d \<and> utf8_cont e
                            \<and> (b = 240 \<longrightarrow> 144 \<le> c) \<and> (b = 244 \<longrightarrow> c \<le> 143)
                            \<and> utf8_valid r
         | _ \<Rightarrow> False)
      else False)"

definition sample_builtins :: pybuiltins where
  "sample_builtins =
     \<lparr> int_of_str = (\<lambda>s. let t = strip s; body = snd (split_sign t) in
                      if body \<noteq> [] \<and> list_all is_digit body
                      then Some ((if fst (split_sign t) then - 1 else 1) * int (nat_of_digits body))
                      else None),
       float_of_str = (\<lambda>s. map_option (\<lambda>d. PyFloat (text_of_dec (fst d) (snd d)))
                              (dec_of_text (strip s))),
       float_of_int = (\<lambda>i. Some (PyFloat (str_int i @ ''.0''))),
       num_gt = (\<lambda>x y. case (dec_of_num x, dec_of_num y) of
                   (Some a, Some b) \<Rightarrow> fst a * 10 ^ snd b > fst b * 10 ^ snd a
                 | _ \<Rightarrow> False),
       num_eq = (\<lambda>x y. case (dec_of_num x, dec_of_num y) of
                   (Some a, Some b) \<Rightarrow> fst a * 10 ^ snd b = fst b * 10 ^ snd a
                 | _ \<Rightarrow> False),
       num_floordiv = (\<lambda>x k. dec_arith (\<lambda>m s. (m div (k * 10 ^ s), 0)) x),
       num_add = (\<lambda>x k. dec_arith (\<lambda>m s. (m + k * 10 ^ s, s)) x),
       num_mul = (\<lambda>x k. dec_arith (\<lambda>m s. (m * k, s)) x),
       encode_utf8 = (\<lambda>s. if utf8_valid (map of_char s) then Some s else None),
       md5 = (\<lambda>s. foldl (\<lambda>h c. h * 31 + of_nat (of_char c)) 7 s),
       pathlib_join = (\<lambda>root parts. foldl (\<lambda>a b. a @ ''/'' @ b) root parts) \<rparr>"

section \<open>What the specification calls the smallest multiple\<close>

text \<open>The smallest multiple of \<open>step\<close> that is at least \<open>x\<close>, as the specification words the
  corrected upper bucket bound (\<open>x\<close> being the resolution plus two steps).\<close>

definition smallest_multiple_at_least :: "int \<Rightarrow> int \<Rightarrow> int" where
  "smallest_multiple_at_least step x = ((x + step - 1) div step) * step"

section \<open>Sample environments\<close>

text \<open>An environment given by the list of its variables.\<close>

definition env_of :: "(string \<times> string) list \<Rightarrow> environ" where
  "env_of kv = map_of kv"

text \<open>A world for trying the run: the script lies in \<^verbatim>\<open>/repo/scripts\<close>, no override file is
  present, no path exists, and the command line is empty (the defaults of \<^verbatim>\<open>argparse\<close>).\<close>

definition sample_world :: "environ \<Rightarrow> world" where
  "sample_world env =
     \<lparr> w_environ = env,
       w_script_dir_name = ''scripts'',
       w_script_dir_parent = ''/repo'',
       w_toml_files = (\<lambda>path. Absent),
       w_path_exists = (\<lambda>path. False),
       w_fs_lookup = (\<lambda>path. None),
       w_clock_stamp = ''20260101_120000'',
       w_host = \<lparr> timestamp_utc = ''2026-01-01T12:00:00+00:00'', hostname = ''host'',
                  git_probe = None, gpu_probe = None, python_version = ''3.11.0'' \<rparr> \<rparr>"

definition default_args :: cli_args where
  "default_args =
     \<lparr> arg_profile = Fast, arg_dry_run = False, arg_output_json = False,
       arg_allow_alpha_mismatch = False, arg_workspace = None, arg_run_name = None,
       arg_show_repro = False \<rparr>"

text \<open>What one entry of the table contributes: nothing when the variable is unset, blank or
  cannot be read as the kind of its key, and the coerced value otherwise.\<close>

definition env_value :: "pybuiltins \<Rightarrow> environ \<Rightarrow> string \<times> string \<Rightarrow> pyval option" where
  "env_value B env m =
     (case env (fst m) of
        None \<Rightarrow> None
      | Some val \<Rightarrow>
          if strip val = [] then None
          else if snd m \<in> set int_keys then map_option VInt (int_of_str B val)
          else if snd m \<in> set float_keys then map_option VFloat (float_of_str B val)
          else Some (VStr val))"

text \<open>The contribution of the last entry for a key that contributes anything.\<close>

primrec latest_value :: "pybuiltins \<Rightarrow> environ \<Rightarrow> string \<Rightarrow> (string \<times> string) list \<Rightarrow> pyval option" where
  "latest_value B env k [] = None"
| "latest_value B env k (m # ms) =
     (case latest_value B env k ms of
        Some x \<Rightarrow> Some x
      | None \<Rightarrow> if snd m = k then env_value B env m else None)"

section \<open>Readable files\<close>

text \<open>A directory tree holds a readable file when some file in it, at any depth, can be
  examined by \<^verbatim>\<open>os.stat\<close>.\<close>

fun has_readable :: "(string \<times> fs_node) list \<Rightarrow> bool" where
  "has_readable [] = False"
| "has_readable ((name, File st) # es) = (st \<noteq> None \<or> has_readable es)"
| "has_readable ((name, Dir sub) # es) = (has_readable sub \<or> has_readable es)"

text \<open>The readable files of a tree with their relative path, size and modification time,
  and the entry each one stands for; this says which entries the fingerprint is about,
  without the order in which the walk meets them.\<close>

fun readable_files :: "string \<Rightarrow> (string \<times> fs_node) list \<Rightarrow> (string \<times> int \<times> int) list" where
  "readable_files root [] = []"
| "readable_files root ((name, File None) # es) = readable_files root es"
| "readable_files root ((name, File (Some st)) # es) =
     (rel_join root name, fst st, snd st) # readable_files root es"
| "readable_files root ((name, Dir sub) # es) =
     readable_files (rel_join root name) sub @ readable_files root es"

definition entry_line :: "string \<times> int \<times> int \<Rightarrow> string" where
  "entry_line e = fst e @ '':'' @ str_int (fst (snd e)) @ '':'' @ str_int (snd (snd e))"

section \<open>The resume token\<close>

text \<open>A token is a resume flag when it begins with \<^verbatim>\<open>--network_weights=\<close>.\<close>

definition is_resume_flag :: "string \<Rightarrow> bool" where
  "is_resume_flag t = (take 18 t = ''--network_weights='')"

section \<open>Properties\<close>

subsection \<open>Dictionaries\<close>

lemma map_of_dict_set: "map_of (dict_set d k v) = (map_of d)(k \<mapsto> v)"
  by (induction d) (auto simp: fun_eq_iff)

lemma dict_get_or_set_same: "dict_get_or (dict_set d k v) k dflt = v"
  by (simp add: dict_get_or_def map_of_dict_set)

lemma dict_get_or_set_other:
  "k' \<noteq> k \<Longrightarrow> dict_get_or (dict_set d k v) k' dflt = dict_get_or d k' dflt"
  by (simp add: dict_get_or_def map_of_dict_set)

lemma map_of_dict_update: "map_of (dict_update d e) k = (case map_of (rev e) k of None \<Rightarrow> map_of d k | Some v \<Rightarrow> Some v)"
proof (induction e arbitrary: d)
  case Nil
  show ?case by simp
next
  case (Cons p ps)
  show ?case
    by (cases p) (auto simp: Cons map_of_dict_set map_add_def map_of_append split: option.splits)
qed

subsection \<open>The bucket bounds on integers\<close>

lemma adjust_max_bucket_int:
  assumes "dict_get_or config ''resolution'' (VInt 512) = VInt r"
    and "dict_get_or config ''max_bucket_reso'' (VInt 1024) = VInt m"
  shows "adjust_max_bucket B config =
     Inr (if r > m
          then (dict_set config ''max_bucket_reso'' (VInt ((r div 64 + 2) * 64)),
                [''[AUTO] Adjusted max_bucket_reso: '' @ str_int m @ '' -> ''
                 @ str_int ((r div 64 + 2) * 64) @ '' (must be >= resolution '' @ str_int r
                 @ '')''])
          else (config, []))"
  using assms
  by (simp add: adjust_max_bucket_def bindE_def py_gt_def py_floordiv_def py_add_def py_mul_def)

lemma adjust_min_bucket_int:
  assumes "dict_get_or config ''min_bucket_reso'' (VInt 256) = VInt b"
  shows "adjust_min_bucket B (VInt r) config =
     Inr (if b > r div 2
          then (dict_set config ''min_bucket_reso'' (VInt (max 256 (r div 4 div 64 * 64))),
                [''[AUTO] Adjusted min_bucket_reso: '' @ str_int b @ '' -> ''
                 @ str_int (max 256 (r div 4 div 64 * 64))])
          else (config, []))"
  using assms
  by (auto simp add: adjust_min_bucket_def bindE_def py_gt_def py_floordiv_def py_mul_def
        py_max_def max_def)

lemma two_steps_up:
  fixes r :: int
  shows "64 dvd (r div 64 + 2) * 64"
    and "r + 64 < (r div 64 + 2) * 64"
    and "64 dvd k \<Longrightarrow> r + 64 < k \<Longrightarrow> (r div 64 + 2) * 64 \<le> k"
proof -
  show "64 dvd (r div 64 + 2) * 64" by simp
  have e: "r = r div 64 * 64 + r mod 64" by simp
  have m: "r mod 64 < 64" "0 \<le> r mod 64" by simp_all
  show "r + 64 < (r div 64 + 2) * 64" using e m by (simp add: algebra_simps)
  assume "64 dvd k" "r + 64 < k"
  then obtain j where j: "k = 64 * j" by (auto simp: dvd_def)
  with \<open>r + 64 < k\<close> e m have "64 * (r div 64) + 64 < 64 * j" by linarith
  hence "r div 64 + 1 < j" by simp
  thus "(r div 64 + 2) * 64 \<le> k" using j by simp
qed

text \<open>
  C10. For a configuration whose resolution and bucket bounds are integers, the
  auto-correction of the bucket bounds ends normally, leaves the resolution as it was,
  and the upper bucket bound of the result is at least the resolution, whether or not a
  correction was applied.
\<close>

theorem max_bucket_covers_resolution:
  assumes "dict_get_or config ''resolution'' (VInt 512) = VInt r"
    and "dict_get_or config ''max_bucket_reso'' (VInt 1024) = VInt m"
    and "dict_get_or config ''min_bucket_reso'' (VInt 256) = VInt b"
  shows "\<exists>config' m'. snd (adjust_buckets B config) = Inr config'
           \<and> dict_get_or config' ''resolution'' (VInt 512) = VInt r
           \<and> dict_get_or config' ''max_bucket_reso'' (VInt 1024) = VInt m'
           \<and> r \<le> m'"
proof -
  define c1 where "c1 = (if m < r
     then dict_set config ''max_bucket_reso'' (VInt ((r div 64 + 2) * 64)) else config)"
  define m1 where "m1 = (if m < r then (r div 64 + 2) * 64 else m)"
  define c2 where "c2 = (if r div 2 < b
     then dict_set c1 ''min_bucket_reso'' (VInt (max 256 (r div 4 div 64 * 64))) else c1)"
  have s1: "\<exists>out1. adjust_max_bucket B config = Inr (c1, out1)"
    unfolding adjust_max_bucket_int[OF assms(1,2)] c1_def by (cases "m < r") simp_all
  have r1: "dict_get_or c1 ''resolution'' (VInt 512) = VInt r"
    using assms(1) by (simp add: c1_def dict_get_or_set_other)
  have b1: "dict_get_or c1 ''min_bucket_reso'' (VInt 256) = VInt b"
    using assms(3) by (simp add: c1_def dict_get_or_set_other)
  have x1: "dict_get_or c1 ''max_bucket_reso'' (VInt 1024) = VInt m1"
    using assms(2) by (simp add: c1_def m1_def dict_get_or_set_same)
  have s2: "\<exists>out2. adjust_min_bucket B (VInt r) c1 = Inr (c2, out2)"
    unfolding adjust_min_bucket_int[OF b1] c2_def by (cases "r div 2 < b") simp_all
  have r2: "dict_get_or c2 ''resolution'' (VInt 512) = VInt r"
    using r1 by (simp add: c2_def dict_get_or_set_other)
  have x2: "dict_get_or c2 ''max_bucket_reso'' (VInt 1024) = VInt m1"
    using x1 by (simp add: c2_def dict_get_or_set_other)
  have le: "r \<le> m1"
    using two_steps_up(2)[of r] by (simp add: m1_def)
  from s1 obtain out1 where o1: "adjust_max_bucket B config = Inr (c1, out1)" by blast
  from s2 obtain out2 where o2: "adjust_min_bucket B (VInt r) c1 = Inr (c2, out2)" by blast
  have "snd (adjust_buckets B config) = Inr c2"
    by (simp add: adjust_buckets_def o1 o2 assms(1))
  with r2 x2 le show ?thesis by blast
qed

theorem max_bucket_covers_resolution_witness:
  "dict_get_or [(''resolution'', VInt 1024), (''min_bucket_reso'', VInt 256),
                (''max_bucket_reso'', VInt 768)] ''resolution'' (VInt 512) = VInt 1024
   \<and> dict_get_or [(''resolution'', VInt 1024), (''min_bucket_reso'', VInt 256),
                (''max_bucket_reso'', VInt 768)] ''max_bucket_reso'' (VInt 1024) = VInt 768
   \<and> dict_get_or [(''resolution'', VInt 1024), (''min_bucket_reso'', VInt 256),
                (''max_bucket_reso'', VInt 768)] ''min_bucket_reso'' (VInt 256) = VInt 256
   \<and> (\<exists>config' m'.
         snd (adjust_buckets sample_builtins
                [(''resolution'', VInt 1024), (''min_bucket_reso'', VInt 256),
                 (''max_bucket_reso'', VInt 768)]) = Inr config'
         \<and> dict_get_or config' ''resolution'' (VInt 512) = VInt 1024
         \<and> dict_get_or config' ''max_bucket_reso'' (VInt 1024) = VInt m'
         \<and> 1024 \<le> m')"
proof -
  let ?c = "[(''resolution'', VInt 1024), (''min_bucket_reso'', VInt 256),
             (''max_bucket_reso'', VInt 768)]"
  have h1: "dict_get_or ?c ''resolution'' (VInt 512) = VInt 1024"
    by (simp add: dict_get_or_def)
  have h2: "dict_get_or ?c ''max_bucket_reso'' (VInt 1024) = VInt 768"
    by (simp add: dict_get_or_def)
  have h3: "dict_get_or ?c ''min_bucket_reso'' (VInt 256) = VInt 256"
    by (simp add: dict_get_or_def)
  from max_bucket_covers_resolution[OF h1 h2 h3, of sample_builtins] h1 h2 h3
  show ?thesis by blast
qed

lemma smallest_multiple_at_least_spec:
  assumes "0 < step"
  shows "step dvd smallest_multiple_at_least step x"
    and "x \<le> smallest_multiple_at_least step x"
    and "step dvd k \<Longrightarrow> x \<le> k \<Longrightarrow> smallest_multiple_at_least step x \<le> k"
proof -
  let ?q = "(x + step - 1) div step"
  show "step dvd smallest_multiple_at_least step x"
    by (simp add: smallest_multiple_at_least_def)
  have e: "x + step - 1 = ?q * step + (x + step - 1) mod step" by simp
  have m: "(x + step - 1) mod step < step" "0 \<le> (x + step - 1) mod step"
    using assms by simp_all
  show "x \<le> smallest_multiple_at_least step x"
    unfolding smallest_multiple_at_least_def using e m by linarith
  assume "step dvd k" "x \<le> k"
  then obtain j where j: "k = step * j" by (auto simp: dvd_def)
  have "?q * step \<le> x + step - 1" using e m by linarith
  with \<open>x \<le> k\<close> j have "?q * step < step * j + step" by linarith
  hence "step * ?q < step * (j + 1)" by (simp add: algebra_simps)
  hence "?q < j + 1" using assms by simp
  hence "?q \<le> j" by simp
  hence "?q * step \<le> j * step" using assms by (simp add: mult_right_mono)
  thus "smallest_multiple_at_least step x \<le> k"
    unfolding smallest_multiple_at_least_def using j by (simp add: mult.commute)
qed

lemma two_steps_on_grid:
  fixes r :: int
  assumes "64 dvd r"
  shows "(r div 64 + 2) * 64 = smallest_multiple_at_least 64 (r + 128)"
proof -
  from assms obtain j where j: "r = 64 * j" by (auto simp: dvd_def)
  have "(64 * j + 191) div 64 = j + 2" by presburger
  thus ?thesis by (simp add: smallest_multiple_at_least_def j)
qed

lemma min_bucket_lowered_iff:
  fixes r b :: int
  assumes "r div 2 < b"
  shows "max 256 (r div 4 div 64 * 64) < b \<longleftrightarrow> 256 < b"
proof -
  define q4 where "q4 = r div 4"
  define h where "h = r div 2"
  have a: "4 * q4 \<le> r" "r < 4 * q4 + 4" unfolding q4_def by presburger+
  have c: "2 * h \<le> r" "r < 2 * h + 2" unfolding h_def by presburger+
  have d: "q4 div 64 * 64 \<le> q4" by presburger
  have "q4 div 64 * 64 < b \<or> b \<le> 256"
    using a c d assms unfolding h_def[symmetric] by linarith
  thus ?thesis unfolding q4_def[symmetric] by (auto simp: max_def)
qed

lemma exceeds_half: "(r::int) div 2 < b \<longleftrightarrow> r < 2 * b"
  by presburger

text \<open>
  C3 (as amended). When the resolution exceeds the upper bucket bound (both integers), the
  bound is raised to \<open>(resolution div 64 + 2) * 64\<close> and one advisory with the old and the
  new value is printed. The new bound is the smallest multiple of 64 that lies more than
  one step (64) above the resolution; it is the smallest multiple of 64 at least two steps
  (128) above the resolution when the resolution is itself a multiple of 64, as for 1024,
  where it is 1152. When the resolution does not exceed the bound, nothing changes and
  nothing is printed.
\<close>

theorem max_bucket_correction:
  assumes "dict_get_or config ''resolution'' (VInt 512) = VInt r"
    and "dict_get_or config ''max_bucket_reso'' (VInt 1024) = VInt m"
  shows "(m < r \<longrightarrow>
            adjust_max_bucket B config =
              Inr (dict_set config ''max_bucket_reso'' (VInt ((r div 64 + 2) * 64)),
                   [''[AUTO] Adjusted max_bucket_reso: '' @ str_int m @ '' -> ''
                    @ str_int ((r div 64 + 2) * 64) @ '' (must be >= resolution ''
                    @ str_int r @ '')''])
            \<and> 64 dvd (r div 64 + 2) * 64
            \<and> r + 64 < (r div 64 + 2) * 64
            \<and> (\<forall>k. 64 dvd k \<and> r + 64 < k \<longrightarrow> (r div 64 + 2) * 64 \<le> k)
            \<and> (64 dvd r \<longrightarrow> (r div 64 + 2) * 64 = smallest_multiple_at_least 64 (r + 128)))
         \<and> (\<not> m < r \<longrightarrow> adjust_max_bucket B config = Inr (config, []))"
proof (intro conjI impI allI)
  assume "m < r"
  thus "adjust_max_bucket B config =
          Inr (dict_set config ''max_bucket_reso'' (VInt ((r div 64 + 2) * 64)),
               [''[AUTO] Adjusted max_bucket_reso: '' @ str_int m @ '' -> ''
                @ str_int ((r div 64 + 2) * 64) @ '' (must be >= resolution ''
                @ str_int r @ '')''])"
    unfolding adjust_max_bucket_int[OF assms] by simp
next
  show "64 dvd (r div 64 + 2) * 64" by (rule two_steps_up(1))
next
  show "r + 64 < (r div 64 + 2) * 64" by (rule two_steps_up(2))
next
  fix k :: int
  assume "64 dvd k \<and> r + 64 < k"
  thus "(r div 64 + 2) * 64 \<le> k" using two_steps_up(3)[of k r] by blast
next
  assume "64 dvd r"
  thus "(r div 64 + 2) * 64 = smallest_multiple_at_least 64 (r + 128)"
    by (rule two_steps_on_grid)
next
  assume "\<not> m < r"
  thus "adjust_max_bucket B config = Inr (config, [])"
    unfolding adjust_max_bucket_int[OF assms] by simp
qed

theorem max_bucket_correction_witness:
  "adjust_max_bucket sample_builtins
     [(''resolution'', VInt 1024), (''max_bucket_reso'', VInt 768)]
   = Inr ([(''resolution'', VInt 1024), (''max_bucket_reso'', VInt 1152)],
          [''[AUTO] Adjusted max_bucket_reso: 768 -> 1152 (must be >= resolution 1024)''])
   \<and> (1152::int) = smallest_multiple_at_least 64 (1024 + 128)
   \<and> adjust_max_bucket sample_builtins
        [(''resolution'', VInt 512), (''max_bucket_reso'', VInt 768)]
      = Inr ([(''resolution'', VInt 512), (''max_bucket_reso'', VInt 768)], [])"
proof -
  let ?c = "[(''resolution'', VInt 1024), (''max_bucket_reso'', VInt 768)]"
  let ?d = "[(''resolution'', VInt 512), (''max_bucket_reso'', VInt 768)]"
  have c1: "dict_get_or ?c ''resolution'' (VInt 512) = VInt 1024"
    and c2: "dict_get_or ?c ''max_bucket_reso'' (VInt 1024) = VInt 768"
    and d1: "dict_get_or ?d ''resolution'' (VInt 512) = VInt 512"
    and d2: "dict_get_or ?d ''max_bucket_reso'' (VInt 1024) = VInt 768"
    by (simp_all add: dict_get_or_def)
  have s: "str_int 768 = ''768''" "str_int 1152 = ''1152''" "str_int 1024 = ''1024''"
    by code_simp+
  have a: "(1024::int) div 64 = 16" by simp
  from max_bucket_correction[OF c1 c2, of sample_builtins]
  have "adjust_max_bucket sample_builtins ?c
          = Inr ([(''resolution'', VInt 1024), (''max_bucket_reso'', VInt 1152)],
                 [''[AUTO] Adjusted max_bucket_reso: 768 -> 1152 (must be >= resolution 1024)''])
        \<and> (1152::int) = smallest_multiple_at_least 64 (1024 + 128)"
    by (simp add: a s)
  moreover from max_bucket_correction[OF d1 d2, of sample_builtins]
  have "adjust_max_bucket sample_builtins ?d = Inr (?d, [])" by simp
  ultimately show ?thesis by blast
qed

theorem max_bucket_not_two_steps_counterexample:
  "adjust_max_bucket sample_builtins
     [(''resolution'', VInt 1000), (''max_bucket_reso'', VInt 768)]
   = Inr ([(''resolution'', VInt 1000), (''max_bucket_reso'', VInt 1088)],
          [''[AUTO] Adjusted max_bucket_reso: 768 -> 1088 (must be >= resolution 1000)''])
   \<and> smallest_multiple_at_least 64 (1000 + 128) = 1152
   \<and> (1088::int) < 1000 + 128"
  by code_simp

text \<open>
  C7 (as amended). When the lower bucket bound exceeds half the resolution (both integers),
  it is set to \<open>max 256 (resolution div 4 div 64 * 64)\<close> and one advisory is printed; the new
  value is below the old one exactly when the old bound was above 256, so a bound of 256 or
  less is kept at or raised to 256. When the lower bound does not exceed half the
  resolution, as for resolution 512 and bound 256, nothing changes and nothing is printed.
\<close>

theorem min_bucket_correction:
  assumes "dict_get_or config ''min_bucket_reso'' (VInt 256) = VInt b"
  shows "(r < 2 * b \<longrightarrow>
            adjust_min_bucket B (VInt r) config =
              Inr (dict_set config ''min_bucket_reso'' (VInt (max 256 (r div 4 div 64 * 64))),
                   [''[AUTO] Adjusted min_bucket_reso: '' @ str_int b @ '' -> ''
                    @ str_int (max 256 (r div 4 div 64 * 64))])
            \<and> (max 256 (r div 4 div 64 * 64) < b \<longleftrightarrow> 256 < b))
         \<and> (\<not> r < 2 * b \<longrightarrow> adjust_min_bucket B (VInt r) config = Inr (config, []))"
proof (intro conjI impI)
  assume "r < 2 * b"
  hence h: "r div 2 < b" by (simp add: exceeds_half)
  show "adjust_min_bucket B (VInt r) config =
          Inr (dict_set config ''min_bucket_reso'' (VInt (max 256 (r div 4 div 64 * 64))),
               [''[AUTO] Adjusted min_bucket_reso: '' @ str_int b @ '' -> ''
                @ str_int (max 256 (r div 4 div 64 * 64))])"
    unfolding adjust_min_bucket_int[OF assms] using h by simp
  show "max 256 (r div 4 div 64 * 64) < b \<longleftrightarrow> 256 < b"
    using h by (rule min_bucket_lowered_iff)
next
  assume "\<not> r < 2 * b"
  hence h: "\<not> r div 2 < b" by (simp add: exceeds_half)
  show "adjust_min_bucket B (VInt r) config = Inr (config, [])"
    unfolding adjust_min_bucket_int[OF assms] using h by simp
qed

theorem min_bucket_correction_witness:
  "adjust_min_bucket sample_builtins (VInt 768)
     [(''resolution'', VInt 768), (''min_bucket_reso'', VInt 512)]
   = Inr ([(''resolution'', VInt 768), (''min_bucket_reso'', VInt 256)],
          [''[AUTO] Adjusted min_bucket_reso: 512 -> 256''])
   \<and> adjust_min_bucket sample_builtins (VInt 512)
        [(''resolution'', VInt 512), (''min_bucket_reso'', VInt 256)]
      = Inr ([(''resolution'', VInt 512), (''min_bucket_reso'', VInt 256)], [])"
proof -
  let ?c = "[(''resolution'', VInt 768), (''min_bucket_reso'', VInt 512)]"
  let ?d = "[(''resolution'', VInt 512), (''min_bucket_reso'', VInt 256)]"
  have c1: "dict_get_or ?c ''min_bucket_reso'' (VInt 256) = VInt 512"
    and d1: "dict_get_or ?d ''min_bucket_reso'' (VInt 256) = VInt 256"
    by (simp_all add: dict_get_or_def)
  have s: "str_int 512 = ''512''" "str_int 256 = ''256''"
    by code_simp+
  have a: "(768::int) div 4 div 64 * 64 = 192" by simp
  from min_bucket_correction[OF c1, of 768 sample_builtins]
  have "adjust_min_bucket sample_builtins (VInt 768) ?c
          = Inr ([(''resolution'', VInt 768), (''min_bucket_reso'', VInt 256)],
                 [''[AUTO] Adjusted min_bucket_reso: 512 -> 256''])"
    by (simp add: a s)
  moreover from min_bucket_correction[OF d1, of 512 sample_builtins]
  have "adjust_min_bucket sample_builtins (VInt 512) ?d = Inr (?d, [])" by simp
  ultimately show ?thesis by blast
qed

theorem min_bucket_raised_counterexample:
  "snd (adjust_buckets sample_builtins
          [(''resolution'', VInt 300), (''min_bucket_reso'', VInt 200),
           (''max_bucket_reso'', VInt 768)])
   = Inr [(''resolution'', VInt 300), (''min_bucket_reso'', VInt 256),
          (''max_bucket_reso'', VInt 768)]
   \<and> (300::int) div 2 < 200
   \<and> max 256 ((300::int) div 4 div 64 * 64) = 256
   \<and> (200::int) < 256"
  by code_simp

subsection \<open>Merging the layers\<close>

lemma in_dict_set_key: "(a, b) \<in> set (dict_set d k v) \<Longrightarrow> a = k \<or> a \<in> fst ` set d"
  by (induction d) (force split: if_splits)+

lemma distinct_dict_set: "distinct (map fst d) \<Longrightarrow> distinct (map fst (dict_set d k v))"
  by (induction d) (auto dest: in_dict_set_key)

lemma distinct_dict_update: "distinct (map fst d) \<Longrightarrow> distinct (map fst (dict_update d e))"
  by (induction e arbitrary: d) (auto simp: distinct_dict_set)

lemma distinct_flatten_into:
  "distinct (map fst flat) \<Longrightarrow> distinct (map fst (flatten_into flat toml))"
  by (induction flat toml rule: flatten_into.induct)
     (auto simp: distinct_dict_set distinct_dict_update)

lemma distinct_flatten_toml_config: "distinct (map fst (flatten_toml_config toml))"
  by (simp add: flatten_toml_config_def distinct_flatten_into)

lemma distinct_env_override_step:
  "distinct (map fst ov) \<Longrightarrow> distinct (map fst (env_override_step B env ov m))"
  by (auto simp: env_override_step_def Let_def distinct_dict_set split: option.splits)

lemma distinct_foldl_env_override_step:
  "distinct (map fst ov) \<Longrightarrow> distinct (map fst (foldl (env_override_step B env) ov ms))"
  by (induction ms arbitrary: ov) (auto simp: distinct_env_override_step)

lemma distinct_get_env_overrides: "distinct (map fst (get_env_overrides B env))"
  by (simp add: get_env_overrides_def distinct_foldl_env_override_step)

lemma map_of_rev_distinct: "distinct (map fst e) \<Longrightarrow> map_of (rev e) k = map_of e k"
proof (induction e)
  case Nil
  show ?case by simp
next
  case (Cons p ps)
  obtain a b where p: "p = (a, b)" by (cases p)
  from Cons.prems p have notin: "a \<notin> fst ` set ps" and d: "distinct (map fst ps)" by auto
  from notin have none: "map_of ps a = None" by (simp add: map_of_eq_None_iff)
  show ?case
    using Cons.IH[OF d] none p
    by (auto simp: map_of_append map_add_def split: option.splits)
qed

lemma map_of_dict_update_distinct:
  "distinct (map fst e) \<Longrightarrow>
   map_of (dict_update d e) k = (case map_of e k of None \<Rightarrow> map_of d k | Some v \<Rightarrow> Some v)"
  by (simp add: map_of_dict_update map_of_rev_distinct)

lemma map_of_merge_layers:
  assumes "distinct (map fst flat)" and "distinct (map fst ov)"
  shows "map_of (merge_layers p flat ov) k =
     (case map_of ov k of
        Some v \<Rightarrow> Some v
      | None \<Rightarrow> (case map_of flat k of
                   Some v \<Rightarrow> Some v
                 | None \<Rightarrow> map_of (PROFILE_DEFAULTS p) k))"
  using assms by (simp add: merge_layers_def map_of_dict_update_distinct split: option.splits)

lemma defaults_have_network_dim: "map_of (PROFILE_DEFAULTS p) ''network_dim'' \<noteq> None"
  by (cases p) (simp_all add: PROFILE_DEFAULTS_def)

lemma merged_has_network_dim:
  assumes "distinct (map fst flat)" and "distinct (map fst ov)"
  shows "\<exists>d. map_of (merge_layers p flat ov) ''network_dim'' = Some d"
  using defaults_have_network_dim[of p]
  by (auto simp: map_of_merge_layers[OF assms] split: option.splits)

text \<open>
  C2. After the three layers are merged and the scaling parameter is synchronised (lines
  523-539): when the environment set \<open>network_dim\<close> and not \<open>network_alpha\<close>, the effective
  \<open>network_alpha\<close> is the effective \<open>network_dim\<close>; otherwise, when neither the environment
  nor the file set \<open>network_alpha\<close>, the same holds; otherwise the \<open>network_alpha\<close> of the
  environment, or else of the file, is the effective one. The step never fails and leaves
  \<open>network_dim\<close> as merged.
\<close>

theorem scaling_follows_rank:
  assumes "flat = flatten_toml_config toml"
    and "ov = get_env_overrides B env"
  shows "\<exists>config d.
      sync_alpha (merge_layers p flat ov) flat ov = Inr config
      \<and> dict_get config ''network_dim'' = Some d
      \<and> dict_get (merge_layers p flat ov) ''network_dim'' = Some d
      \<and> (dict_has ov ''network_dim'' \<and> \<not> dict_has ov ''network_alpha'' \<longrightarrow>
           dict_get config ''network_alpha'' = Some d)
      \<and> (\<not> dict_has ov ''network_alpha'' \<and> \<not> dict_has flat ''network_alpha'' \<longrightarrow>
           dict_get config ''network_alpha'' = Some d)
      \<and> (dict_has ov ''network_alpha'' \<longrightarrow>
           dict_get config ''network_alpha'' = dict_get ov ''network_alpha'')
      \<and> (\<not> dict_has ov ''network_alpha'' \<and> \<not> dict_has ov ''network_dim''
           \<and> dict_has flat ''network_alpha'' \<longrightarrow>
           dict_get config ''network_alpha'' = dict_get flat ''network_alpha'')"
proof -
  have df: "distinct (map fst flat)" and dv: "distinct (map fst ov)"
    using assms by (simp_all add: distinct_flatten_toml_config distinct_get_env_overrides)
  let ?m = "merge_layers p flat ov"
  from merged_has_network_dim[OF df dv, of p]
  obtain d where d: "map_of ?m ''network_dim'' = Some d" by blast
  have ix: "dict_index ?m ''network_dim'' = Inr d" by (simp add: dict_index_def d)
  have al: "map_of ?m ''network_alpha'' =
     (case map_of ov ''network_alpha'' of
        Some v \<Rightarrow> Some v
      | None \<Rightarrow> (case map_of flat ''network_alpha'' of
                   Some v \<Rightarrow> Some v
                 | None \<Rightarrow> map_of (PROFILE_DEFAULTS p) ''network_alpha''))"
    by (rule map_of_merge_layers[OF df dv])
  show ?thesis
  proof (cases "(dict_has ov ''network_dim'' \<and> \<not> dict_has ov ''network_alpha'')
                 \<or> (\<not> dict_has ov ''network_alpha'' \<and> \<not> dict_has flat ''network_alpha'')")
    case True
    hence s: "sync_alpha ?m flat ov = Inr (dict_set ?m ''network_alpha'' d)"
      by (auto simp: sync_alpha_def ix bindE_def)
    have "dict_get (dict_set ?m ''network_alpha'' d) ''network_dim'' = Some d"
      by (simp add: dict_get_def map_of_dict_set d)
    moreover have "dict_get (dict_set ?m ''network_alpha'' d) ''network_alpha'' = Some d"
      by (simp add: dict_get_def map_of_dict_set)
    moreover have "dict_get ?m ''network_dim'' = Some d" by (simp add: dict_get_def d)
    ultimately show ?thesis
      using s True by (auto simp: dict_has_def)
  next
    case False
    hence s: "sync_alpha ?m flat ov = Inr ?m"
      by (auto simp: sync_alpha_def)
    have "dict_get ?m ''network_dim'' = Some d" by (simp add: dict_get_def d)
    moreover have "dict_has ov ''network_alpha'' \<longrightarrow>
        dict_get ?m ''network_alpha'' = dict_get ov ''network_alpha''"
      by (auto simp: dict_get_def dict_has_def al)
    moreover have "\<not> dict_has ov ''network_alpha'' \<and> dict_has flat ''network_alpha'' \<longrightarrow>
        dict_get ?m ''network_alpha'' = dict_get flat ''network_alpha''"
      by (auto simp: dict_get_def dict_has_def al)
    ultimately show ?thesis
      using s False by auto
  qed
qed

theorem scaling_follows_rank_witness:
  "(\<exists>config.
      sync_alpha
        (merge_layers Fast (flatten_toml_config [])
           (get_env_overrides sample_builtins (env_of [(''RANK'', ''48''), (''MAX_STEPS'', ''2000'')])))
        (flatten_toml_config [])
        (get_env_overrides sample_builtins (env_of [(''RANK'', ''48''), (''MAX_STEPS'', ''2000'')]))
      = Inr config
      \<and> dict_get config ''network_dim'' = Some (VInt 48)
      \<and> dict_get config ''network_alpha'' = Some (VInt 48))
   \<and> (\<exists>config.
      sync_alpha
        (merge_layers Fast
           (flatten_toml_config [(''network'', Table [(''network_alpha'', VInt 16)])])
           (get_env_overrides sample_builtins (env_of [])))
        (flatten_toml_config [(''network'', Table [(''network_alpha'', VInt 16)])])
        (get_env_overrides sample_builtins (env_of []))
      = Inr config
      \<and> dict_get config ''network_dim'' = Some (VInt 32)
      \<and> dict_get config ''network_alpha'' = Some (VInt 16))
   \<and> (\<exists>config.
      sync_alpha
        (merge_layers Fast (flatten_toml_config [])
           (get_env_overrides sample_builtins (env_of [(''ALPHA'', ''16'')])))
        (flatten_toml_config [])
        (get_env_overrides sample_builtins (env_of [(''ALPHA'', ''16'')]))
      = Inr config
      \<and> dict_get config ''network_dim'' = Some (VInt 32)
      \<and> dict_get config ''network_alpha'' = Some (VInt 16))"
proof (intro conjI)
  let ?ov = "get_env_overrides sample_builtins (env_of [(''RANK'', ''48''), (''MAX_STEPS'', ''2000'')])"
  let ?flat = "flatten_toml_config []"
  from scaling_follows_rank[OF refl refl, of Fast "[]" sample_builtins
         "env_of [(''RANK'', ''48''), (''MAX_STEPS'', ''2000'')]"]
  obtain config d where c: "sync_alpha (merge_layers Fast ?flat ?ov) ?flat ?ov = Inr config"
    "dict_get config ''network_dim'' = Some d"
    "dict_get (merge_layers Fast ?flat ?ov) ''network_dim'' = Some d"
    "dict_has ?ov ''network_dim'' \<and> \<not> dict_has ?ov ''network_alpha'' \<longrightarrow>
       dict_get config ''network_alpha'' = Some d"
    by blast
  have "dict_get (merge_layers Fast ?flat ?ov) ''network_dim'' = Some (VInt 48)" by code_simp
  with c(3) have d: "d = VInt 48" by simp
  have "dict_has ?ov ''network_dim'' \<and> \<not> dict_has ?ov ''network_alpha''" by code_simp
  with c d show "\<exists>config. sync_alpha (merge_layers Fast ?flat ?ov) ?flat ?ov = Inr config
      \<and> dict_get config ''network_dim'' = Some (VInt 48)
      \<and> dict_get config ''network_alpha'' = Some (VInt 48)" by blast
next
  let ?ov = "get_env_overrides sample_builtins (env_of [])"
  let ?flat = "flatten_toml_config [(''network'', Table [(''network_alpha'', VInt 16)])]"
  from scaling_follows_rank[OF refl refl, of Fast
         "[(''network'', Table [(''network_alpha'', VInt 16)])]" sample_builtins "env_of []"]
  obtain config d where c: "sync_alpha (merge_layers Fast ?flat ?ov) ?flat ?ov = Inr config"
    "dict_get config ''network_dim'' = Some d"
    "dict_get (merge_layers Fast ?flat ?ov) ''network_dim'' = Some d"
    "\<not> dict_has ?ov ''network_alpha'' \<and> \<not> dict_has ?ov ''network_dim''
       \<and> dict_has ?flat ''network_alpha'' \<longrightarrow>
       dict_get config ''network_alpha'' = dict_get ?flat ''network_alpha''"
    by blast
  have "dict_get (merge_layers Fast ?flat ?ov) ''network_dim'' = Some (VInt 32)" by code_simp
  with c(3) have d: "d = VInt 32" by simp
  have "\<not> dict_has ?ov ''network_alpha'' \<and> \<not> dict_has ?ov ''network_dim''
       \<and> dict_has ?flat ''network_alpha''" by code_simp
  moreover have "dict_get ?flat ''network_alpha'' = Some (VInt 16)" by code_simp
  ultimately show "\<exists>config. sync_alpha (merge_layers Fast ?flat ?ov) ?flat ?ov = Inr config
      \<and> dict_get config ''network_dim'' = Some (VInt 32)
      \<and> dict_get config ''network_alpha'' = Some (VInt 16)" using c d by auto
next
  let ?ov = "get_env_overrides sample_builtins (env_of [(''ALPHA'', ''16'')])"
  let ?flat = "flatten_toml_config []"
  from scaling_follows_rank[OF refl refl, of Fast "[]" sample_builtins
         "env_of [(''ALPHA'', ''16'')]"]
  obtain config d where c: "sync_alpha (merge_layers Fast ?flat ?ov) ?flat ?ov = Inr config"
    "dict_get config ''network_dim'' = Some d"
    "dict_get (merge_layers Fast ?flat ?ov) ''network_dim'' = Some d"
    "dict_has ?ov ''network_alpha'' \<longrightarrow>
       dict_get config ''network_alpha'' = dict_get ?ov ''network_alpha''"
    by blast
  have "dict_get (merge_layers Fast ?flat ?ov) ''network_dim'' = Some (VInt 32)" by code_simp
  with c(3) have d: "d = VInt 32" by simp
  have "dict_has ?ov ''network_alpha''" by code_simp
  moreover have "dict_get ?ov ''network_alpha'' = Some (VInt 16)" by code_simp
  ultimately show "\<exists>config. sync_alpha (merge_layers Fast ?flat ?ov) ?flat ?ov = Inr config
      \<and> dict_get config ''network_dim'' = Some (VInt 32)
      \<and> dict_get config ''network_alpha'' = Some (VInt 16)" using c d by auto
qed

subsection \<open>The dataset fingerprint\<close>

lemma length_hexdigest: "length (hexdigest w) = 32"
  by (simp add: hexdigest_def)

lemma hexdigest_not_sentinel:
  "hexdigest w \<noteq> ''dataset_not_found''" "hexdigest w \<noteq> ''empty_dataset''"
  using length_hexdigest[of w] by auto

lemma hex_digit_inj:
  assumes "a < 16" and "b < 16" and "hex_digit a = hex_digit b"
  shows "a = b"
proof -
  from assms(3) have "(of_char (hex_digit a) :: nat) = of_char (hex_digit b)" by simp
  with assms(1,2) show ?thesis
    by (auto simp: hex_digit_def split: if_splits)
qed

lemma nibble_less: "unat (take_bit 4 (x :: 128 word)) < 16"
proof -
  have "unat (take_bit 4 x) = take_bit 4 (unat x)" by (rule unsigned_take_bit_eq)
  moreover have "take_bit 4 (unat x) < 2 ^ 4" by (rule take_bit_nat_less_exp)
  ultimately show ?thesis by simp
qed

lemma hexdigest_nibbles:
  assumes "hexdigest w = hexdigest w'" and "k < 32"
  shows "take_bit 4 (drop_bit (4 * k) w) = take_bit 4 (drop_bit (4 * k) w')"
proof -
  let ?f = "\<lambda>v i. hex_digit (unat (take_bit 4 (drop_bit (4 * (31 - i)) (v :: 128 word))))"
  from assms(1) have "map (?f w) [0..<32] = map (?f w') [0..<32]"
    by (simp only: hexdigest_def)
  hence "\<forall>i \<in> set [0..<32]. ?f w i = ?f w' i" by (simp only: map_eq_conv)
  moreover from assms(2) have "31 - k \<in> set [0..<32]" by simp
  ultimately have "?f w (31 - k) = ?f w' (31 - k)" by blast
  moreover from assms(2) have "31 - (31 - k) = k" by simp
  ultimately have "hex_digit (unat (take_bit 4 (drop_bit (4 * k) w)))
                 = hex_digit (unat (take_bit 4 (drop_bit (4 * k) w')))" by simp
  hence "unat (take_bit 4 (drop_bit (4 * k) w)) = unat (take_bit 4 (drop_bit (4 * k) w'))"
    by (rule hex_digit_inj[OF nibble_less nibble_less])
  thus ?thesis by (rule unsigned_word_eqI)
qed

lemma hexdigest_inj: "hexdigest w = hexdigest w' \<longleftrightarrow> w = w'"
proof
  assume h: "hexdigest w = hexdigest w'"
  show "w = w'"
  proof (rule bit_word_eqI)
    fix n :: nat
    assume "n < LENGTH(128)"
    hence k: "n div 4 < 32" by simp
    have n: "4 * (n div 4) + n mod 4 = n" by simp
    have j: "n mod 4 < 4" by simp
    from hexdigest_nibbles[OF h k]
    have "bit (take_bit 4 (drop_bit (4 * (n div 4)) w)) (n mod 4)
        \<longleftrightarrow> bit (take_bit 4 (drop_bit (4 * (n div 4)) w')) (n mod 4)" by simp
    thus "bit w n \<longleftrightarrow> bit w' n"
      using j by (simp only: bit_take_bit_iff bit_drop_bit_eq n o_def) simp
  qed
next
  assume "w = w'"
  thus "hexdigest w = hexdigest w'" by simp
qed

lemma stat_lines_map:
  "stat_lines root fs =
     map (\<lambda>q. entry_line (rel_join root (fst q), the (snd q))) (filter (\<lambda>q. snd q \<noteq> None) fs)"
  by (induction root fs rule: stat_lines.induct) (simp_all add: entry_line_def)

lemma mset_stat_lines_sorted:
  "mset (stat_lines root (sort_key fst fs)) = mset (stat_lines root fs)"
  by (simp add: stat_lines_map)

lemma walk_entries:
  "mset (concat (map (\<lambda>p. stat_lines (fst p) (sort_key fst (snd p))) (walk root es)))
     = mset (map entry_line (readable_files root es))"
  "mset (concat (map (\<lambda>p. stat_lines (fst p) (sort_key fst (snd p))) (walk_subdirs root es)))
     + mset (stat_lines root (files_in es))
     = mset (map entry_line (readable_files root es))"
proof (induction root es and root es rule: walk_walk_subdirs.induct)
  case (1 root entries)
  have "mset (concat (map (\<lambda>p. stat_lines (fst p) (sort_key fst (snd p))) (walk root entries)))
      = mset (stat_lines root (files_in entries))
        + mset (concat (map (\<lambda>p. stat_lines (fst p) (sort_key fst (snd p)))
                          (walk_subdirs root entries)))"
    by (simp add: mset_stat_lines_sorted)
  thus ?case using 1 by (simp add: add.commute)
next
  case (2 root)
  show ?case by simp
next
  case (3 root name st es)
  show ?case
  proof (cases st)
    case None
    with 3 show ?thesis by simp
  next
    case (Some a)
    with 3 show ?thesis by (cases a) (simp add: entry_line_def)
  qed
next
  case (4 root name sub es)
  thus ?case by (simp add: add.assoc)
qed

lemma file_info_entries: "mset (file_info es) = mset (map entry_line (readable_files [] es))"
  unfolding file_info_def case_prod_beta by (rule walk_entries(1))

lemma sort_file_info: "sort (file_info es) = sort (map entry_line (readable_files [] es))"
  by (rule properties_for_sort) (simp_all add: file_info_entries)

lemma file_info_empty_iff: "file_info es = [] \<longleftrightarrow> readable_files [] es = []"
proof -
  have "file_info es = [] \<longleftrightarrow> mset (file_info es) = {#}" by simp
  also have "\<dots> \<longleftrightarrow> mset (map entry_line (readable_files [] es)) = {#}"
    by (simp only: file_info_entries)
  also have "\<dots> \<longleftrightarrow> readable_files [] es = []" by simp
  finally show ?thesis .
qed

lemma has_readable_iff: "has_readable es \<longleftrightarrow> readable_files root es \<noteq> []"
  by (induction root es rule: readable_files.induct) auto

text \<open>
  What \<open>compute_dataset_hash\<close> returns, case by case. A path that is not a directory gives
  the sentinel \<open>dataset_not_found\<close> and a directory without a readable file gives the
  sentinel \<open>empty_dataset\<close>. A directory with readable files gives, when the text encodes,
  the hex digest of exactly the entries \<open>relative_path:size:mtime\<close> of its readable files,
  sorted and joined by newlines: 32 characters that differ from both sentinels, and equal
  for two directories only when MD5 gives the same word. When the text does not encode,
  the exception leaves the function.
\<close>

lemma dataset_fingerprint_cases:
  "((\<forall>es. lookup d \<noteq> Some (Dir es)) \<longrightarrow>
        compute_dataset_hash B lookup d = Inr ''dataset_not_found'')
   \<and> (lookup d = Some (Dir es) \<and> readable_files [] es = [] \<longrightarrow>
        compute_dataset_hash B lookup d = Inr ''empty_dataset'')
   \<and> (lookup d = Some (Dir es) \<and> readable_files [] es \<noteq> []
        \<and> encode_utf8 B (join_with [CHR 0x0A] (sort (map entry_line (readable_files [] es))))
            = Some bytes \<longrightarrow>
        compute_dataset_hash B lookup d = Inr (hexdigest (md5 B bytes))
        \<and> length (hexdigest (md5 B bytes)) = 32
        \<and> hexdigest (md5 B bytes) \<noteq> ''dataset_not_found''
        \<and> hexdigest (md5 B bytes) \<noteq> ''empty_dataset''
        \<and> (\<forall>bytes'. hexdigest (md5 B bytes) = hexdigest (md5 B bytes')
               \<longleftrightarrow> md5 B bytes = md5 B bytes'))
   \<and> (lookup d = Some (Dir es) \<and> readable_files [] es \<noteq> []
        \<and> encode_utf8 B (join_with [CHR 0x0A] (sort (map entry_line (readable_files [] es))))
            = None \<longrightarrow>
        compute_dataset_hash B lookup d = Inl UnicodeEncodeError)
   \<and> ''dataset_not_found'' \<noteq> ''empty_dataset''"
proof (intro conjI impI allI)
  assume "\<forall>es. lookup d \<noteq> Some (Dir es)"
  thus "compute_dataset_hash B lookup d = Inr ''dataset_not_found''"
    by (auto simp: compute_dataset_hash_def split: option.splits fs_node.splits)
next
  assume "lookup d = Some (Dir es) \<and> readable_files [] es = []"
  thus "compute_dataset_hash B lookup d = Inr ''empty_dataset''"
    by (simp add: compute_dataset_hash_def file_info_empty_iff)
next
  assume "lookup d = Some (Dir es) \<and> readable_files [] es \<noteq> []
        \<and> encode_utf8 B (join_with [CHR 0x0A] (sort (map entry_line (readable_files [] es))))
            = Some bytes"
  thus "compute_dataset_hash B lookup d = Inr (hexdigest (md5 B bytes))"
    by (simp add: compute_dataset_hash_def file_info_empty_iff sort_file_info)
next
  show "length (hexdigest (md5 B bytes)) = 32" by (rule length_hexdigest)
next
  show "hexdigest (md5 B bytes) \<noteq> ''dataset_not_found''" by (rule hexdigest_not_sentinel)
next
  show "hexdigest (md5 B bytes) \<noteq> ''empty_dataset''" by (rule hexdigest_not_sentinel)
next
  fix bytes'
  show "hexdigest (md5 B bytes) = hexdigest (md5 B bytes') \<longleftrightarrow> md5 B bytes = md5 B bytes'"
    by (rule hexdigest_inj)
next
  assume "lookup d = Some (Dir es) \<and> readable_files [] es \<noteq> []
        \<and> encode_utf8 B (join_with [CHR 0x0A] (sort (map entry_line (readable_files [] es))))
            = None"
  thus "compute_dataset_hash B lookup d = Inl UnicodeEncodeError"
    by (simp add: compute_dataset_hash_def file_info_empty_iff sort_file_info)
next
  show "''dataset_not_found'' \<noteq> ''empty_dataset''" by simp
qed

text \<open>
  C8. A dataset directory with a readable file whose name is not UTF-8 (here the bytes
  \<open>caf\<close>, \<open>0xE9\<close>, \<open>.png\<close>, a Latin-1 name) is populated, yet the fingerprint function gives
  neither a sentinel nor a digest: \<^verbatim>\<open>.encode()\<close> at line 478 raises \<^verbatim>\<open>UnicodeEncodeError\<close>,
  which nothing catches, so the reproducibility report ends with the exception and prints
  nothing. The same directory with the name \<open>cafe.png\<close> gives a digest.
\<close>

theorem dataset_fingerprint_encode_failure:
  "compute_dataset_hash sample_builtins
      (\<lambda>p. if p = ''/data''
            then Some (Dir [(''caf'' @ [CHR 0xE9] @ ''.png'', File (Some (10, 1700000000)))])
            else None) ''/data''
     = Inl UnicodeEncodeError
   \<and> compute_dataset_hash sample_builtins
      (\<lambda>p. if p = ''/data''
            then Some (Dir [(''cafe.png'', File (Some (10, 1700000000)))])
            else None) ''/data''
     = Inr ''000147c96abd0a6686c26cae49753b86''
   \<and> status (main sample_builtins (default_args\<lparr>arg_show_repro := True\<rparr>)
        ((sample_world (env_of [(''DATA_DIR'', ''/data'')]))
           \<lparr>w_fs_lookup := (\<lambda>p. if p = ''/data''
              then Some (Dir [(''caf'' @ [CHR 0xE9] @ ''.png'', File (Some (10, 1700000000)))])
              else None)\<rparr>))
     = Inl UnicodeEncodeError
   \<and> stdout (main sample_builtins (default_args\<lparr>arg_show_repro := True\<rparr>)
        ((sample_world (env_of [(''DATA_DIR'', ''/data'')]))
           \<lparr>w_fs_lookup := (\<lambda>p. if p = ''/data''
              then Some (Dir [(''caf'' @ [CHR 0xE9] @ ''.png'', File (Some (10, 1700000000)))])
              else None)\<rparr>))
     = []"
  by code_simp

subsection \<open>The runtime overrides, variable by variable\<close>

lemma step_env_value:
  "env_override_step B env ov m =
     (case env_value B env m of None \<Rightarrow> ov | Some x \<Rightarrow> dict_set ov (snd m) x)"
  by (auto simp: env_override_step_def env_value_def Let_def split: option.splits)

lemma map_of_step:
  "map_of (env_override_step B env ov m) k =
     (case env_value B env m of
        None \<Rightarrow> map_of ov k
      | Some x \<Rightarrow> if snd m = k then Some x else map_of ov k)"
  by (subst step_env_value) (simp add: map_of_dict_set split: option.splits)

lemma map_of_foldl_step:
  "map_of (foldl (env_override_step B env) ov ms) k =
     (case latest_value B env k ms of Some x \<Rightarrow> Some x | None \<Rightarrow> map_of ov k)"
proof (induction ms arbitrary: ov)
  case Nil
  show ?case by simp
next
  case (Cons m ms)
  show ?case
    by (simp add: Cons.IH map_of_step split: option.splits)
qed

lemma get_env_overrides_latest:
  "dict_get (get_env_overrides B env) k = latest_value B env k env_mappings"
  by (simp add: dict_get_def get_env_overrides_def map_of_foldl_step split: option.splits)

lemma step_cong:
  "env_value B env m = env_value B env' m \<Longrightarrow>
   env_override_step B env ov m = env_override_step B env' ov m"
  by (simp only: step_env_value)

lemma foldl_step_cong:
  "(\<forall>m \<in> set ms. env_value B env m = env_value B env' m) \<Longrightarrow>
   foldl (env_override_step B env) ov ms = foldl (env_override_step B env') ov ms"
proof (induction ms arbitrary: ov)
  case Nil
  show ?case by simp
next
  case (Cons m ms)
  from Cons.prems have e: "env_value B env m = env_value B env' m"
    and rest: "\<forall>m \<in> set ms. env_value B env m = env_value B env' m" by simp_all
  show ?case
    by (simp only: foldl_Cons step_cong[OF e] Cons.IH[OF rest])
qed

lemma distinct_env_vars: "distinct (map fst env_mappings)"
  by (simp add: env_mappings_def)

lemma env_value_without:
  assumes "(var, key) \<in> set env_mappings" and "env_value B env (var, key) = None"
    and "m \<in> set env_mappings"
  shows "env_value B env m = env_value B (env(var := None)) m"
proof (cases "fst m = var")
  case True
  obtain a b where m: "m = (a, b)" by (cases m)
  with True assms(3) have "(var, b) \<in> set env_mappings" by simp
  with assms(1) have "b = key"
    using distinct_env_vars by (meson eq_key_imp_eq_value)
  with m True have "m = (var, key)" by simp
  thus ?thesis using assms(2) by (simp add: env_value_def)
next
  case False
  thus ?thesis by (simp add: env_value_def)
qed

lemma get_env_overrides_without:
  assumes "(var, key) \<in> set env_mappings" and "env_value B env (var, key) = None"
  shows "get_env_overrides B env = get_env_overrides B (env(var := None))"
  unfolding get_env_overrides_def
  by (rule foldl_step_cong) (blast intro: env_value_without[OF assms])

lemma override_variable_names:
  assumes "(var, key) \<in> set env_mappings"
  shows "var \<notin> {''WORKSPACE'', ''SDSCRIPTS'', ''MODEL_PATH'', ''TEXT_ENCODER_PATH'', ''DATA_DIR'',
            ''OUT_DIR'', ''LOG_DIR'', ''SAMPLE_PROMPTS'', ''RUN_NAME'', ''RESUME_FROM'', ''FP8_BASE''}"
  using assms by (auto simp: env_mappings_def)

lemma main_without:
  assumes "(var, key) \<in> set env_mappings" and "env_value B env (var, key) = None"
  shows "main B args (w\<lparr>w_environ := env\<rparr>) = main B args (w\<lparr>w_environ := env(var := None)\<rparr>)"
proof -
  note n = override_variable_names[OF assms(1)]
  have g: "get_env_overrides B (env(var := None)) = get_env_overrides B env"
    using get_env_overrides_without[OF assms] by simp
  have e: "\<And>k d. k \<in> {''WORKSPACE'', ''SDSCRIPTS'', ''MODEL_PATH'', ''TEXT_ENCODER_PATH'',
             ''DATA_DIR'', ''OUT_DIR'', ''LOG_DIR'', ''SAMPLE_PROMPTS'', ''RUN_NAME'',
             ''RESUME_FROM'', ''FP8_BASE''} \<Longrightarrow>
           env_get_or (env(var := None)) k d = env_get_or env k d"
    using n by (auto simp: env_get_or_def)
  have ws: "DEFAULT_WORKSPACE (env(var := None)) = DEFAULT_WORKSPACE env"
    by (simp add: DEFAULT_WORKSPACE_def e)
  have p: "make_paths (env(var := None)) = make_paths env"
    by (rule ext)
       (simp add: make_paths_def e ws DEFAULT_SDSCRIPTS_def DEFAULT_MODEL_PATH_def
          DEFAULT_TEXT_ENCODER_PATH_def DEFAULT_DATA_DIR_def DEFAULT_OUTPUT_DIR_def
          DEFAULT_LOG_DIR_def DEFAULT_SAMPLE_PROMPTS_def)
  have r: "resume_from_env (env(var := None)) = resume_from_env env"
    by (simp add: resume_from_env_def e)
  have f: "fp8_base_env (env(var := None)) = fp8_base_env env"
    by (simp add: fp8_base_env_def e)
  have rw: "resolve_workspace args (w\<lparr>w_environ := env(var := None)\<rparr>)
              = resolve_workspace args (w\<lparr>w_environ := env\<rparr>)"
    by (simp add: resolve_workspace_def e ws split: option.splits)
  have rn: "make_run_name args (w\<lparr>w_environ := env(var := None)\<rparr>)
              = make_run_name args (w\<lparr>w_environ := env\<rparr>)"
    by (simp add: make_run_name_def e split: option.splits)
  have em: "\<And>config paths run_name command.
      emit B args (w\<lparr>w_environ := env(var := None)\<rparr>) config paths run_name command
        = emit B args (w\<lparr>w_environ := env\<rparr>) config paths run_name command"
    by (simp add: emit_def r f)
  show ?thesis
    by (simp add: main_def Let_def g p r f rw rn em cong: sum.case_cong)
qed

lemma env_value_kind:
  assumes "env_value B env (var, key) = Some x"
  shows "(key \<in> set int_keys \<longrightarrow> (\<exists>i. x = VInt i))
       \<and> (key \<notin> set int_keys \<and> key \<in> set float_keys \<longrightarrow> (\<exists>f. x = VFloat f))"
  using assms by (auto simp: env_value_def split: option.splits if_splits)

lemma env_value_set:
  assumes "env_value B env (var, key) = Some x"
  shows "\<exists>v. env var = Some v \<and> strip v \<noteq> []"
  using assms by (auto simp: env_value_def split: option.splits if_splits)

lemma latest_value_source:
  "latest_value B env k ms = Some x \<Longrightarrow>
   \<exists>var. (var, k) \<in> set ms \<and> env_value B env (var, k) = Some x"
proof (induction ms)
  case Nil
  thus ?case by simp
next
  case (Cons m ms)
  show ?case
  proof (cases "latest_value B env k ms")
    case (Some y)
    with Cons show ?thesis by auto
  next
    case None
    with Cons.prems have s: "snd m = k" and v: "env_value B env m = Some x"
      by (auto split: if_splits)
    from s have "m = (fst m, k)" by (cases m) simp
    with v show ?thesis by (metis list.set_intros(1))
  qed
qed

lemma latest_value_env_mappings:
  assumes "(var, key) \<in> set env_mappings"
    and "env_value B env (var, key) = Some x"
    and "var = ''LEARNING_RATE'' \<longrightarrow> env_value B env (''UNET_LR'', key) = None"
  shows "latest_value B env key env_mappings = Some x"
proof -
  from assms(1) consider
      "var = ''LEARNING_RATE'' \<and> key = ''learning_rate''"
    | "var \<noteq> ''LEARNING_RATE'' \<and> (var, key) \<in> set env_mappings"
    by (auto simp: env_mappings_def)
  thus ?thesis
  proof cases
    case 1
    with assms(2,3) show ?thesis by (simp add: env_mappings_def)
  next
    case 2
    hence "(var, key) \<in> set (filter (\<lambda>m. fst m \<noteq> ''LEARNING_RATE'') env_mappings)" by simp
    hence "(var, key) \<in> {(''RANK'', ''network_dim''),
      (''ALPHA'', ''network_alpha''),
      (''MAX_STEPS'', ''max_train_steps''),
      (''RESOLUTION'', ''resolution''),
      (''UNET_LR'', ''learning_rate''),
      (''WARMUP'', ''lr_warmup_steps''),
      (''NOISE_OFFSET'', ''noise_offset''),
      (''DROPOUT'', ''network_dropout''),
      (''SNR_GAMMA'', ''min_snr_gamma''),
      (''GRAD_ACCUM'', ''gradient_accumulation_steps''),
      (''BATCH_SIZE'', ''train_batch_size''),
      (''SEED'', ''seed''),
      (''OPTIMIZER'', ''optimizer_type''),
      (''SCHEDULER'', ''lr_scheduler''),
      (''MIN_BUCKET'', ''min_bucket_reso''),
      (''MAX_BUCKET'', ''max_bucket_reso'')}"
      by (simp add: env_mappings_def)
    thus ?thesis
      using assms(2) by (elim insertE emptyE) (simp_all add: env_mappings_def)
  qed
qed

lemma float_key_not_int: "key \<in> set float_keys \<Longrightarrow> key \<notin> set int_keys"
  by (auto simp: int_keys_def float_keys_def)

lemma ignored_env_value:
  assumes "env var = None
       \<or> (\<exists>v. env var = Some v
              \<and> (strip v = []
                   \<or> (key \<in> set int_keys \<and> int_of_str B v = None)
                   \<or> (key \<in> set float_keys \<and> float_of_str B v = None)))"
  shows "env_value B env (var, key) = None"
  using assms float_key_not_int[of key] by (auto simp: env_value_def)

lemma coerced_env_value:
  assumes "env var = Some v" and "strip v \<noteq> []"
    and "(\<exists>i. key \<in> set int_keys \<and> int_of_str B v = Some i \<and> x = VInt i)
         \<or> (\<exists>f. key \<in> set float_keys \<and> float_of_str B v = Some f \<and> x = VFloat f)
         \<or> (key \<notin> set int_keys \<and> key \<notin> set float_keys \<and> x = VStr v)"
  shows "env_value B env (var, key) = Some x"
  using assms float_key_not_int[of key] by (auto simp: env_value_def)

lemma env_value_source:
  assumes "env_value B env (u, key) = Some x"
  shows "\<exists>v. env u = Some v \<and> strip v \<noteq> []
           \<and> (key \<in> set int_keys \<longrightarrow> (\<exists>i. int_of_str B v = Some i \<and> x = VInt i))
           \<and> (key \<in> set float_keys \<longrightarrow> (\<exists>f. float_of_str B v = Some f \<and> x = VFloat f))
           \<and> (key \<notin> set int_keys \<and> key \<notin> set float_keys \<longrightarrow> x = VStr v)"
proof (cases "env u")
  case None
  with assms show ?thesis by (simp add: env_value_def)
next
  case (Some v)
  with assms have s: "strip v \<noteq> []" by (auto simp: env_value_def split: if_splits)
  from assms Some s float_key_not_int[of key] show ?thesis
    by (auto simp: env_value_def split: if_splits)
qed

lemma merged_override:
  assumes "dict_get (get_env_overrides B env) key = Some x"
  shows "dict_get (merge_layers p flat (get_env_overrides B env)) key = Some x"
  using assms
  by (simp add: dict_get_def merge_layers_def
        map_of_dict_update_distinct[OF distinct_get_env_overrides])

text \<open>
  C4 (as amended). For every variable of the table \<open>env_mappings\<close> with its key: when the
  variable is unset, blank, or its text cannot be read as the integer or the float that the
  key asks for, the iteration leaves the overrides as they are, and the overrides and the
  whole run (exit status, standard output and standard error) are those of the run without
  the variable; so an unreadable value is dropped silently: nothing fails and no advisory
  is printed for it. The value that the overrides hold for a key is always the coerced text
  of a variable of the table, never the raw text when the key is an integer or a float key.
  A text that is read overwrites the key in the iteration; it is the value of the overrides
  and of the merged configuration, except that for \<open>LEARNING_RATE\<close> the variable \<open>UNET_LR\<close>,
  which names the same key and is read later, must contribute nothing.
\<close>

theorem runtime_override_discipline:
  assumes "(var, key) \<in> set env_mappings"
  shows
   "(env var = None
       \<or> (\<exists>v. env var = Some v
              \<and> (strip v = []
                   \<or> (key \<in> set int_keys \<and> int_of_str B v = None)
                   \<or> (key \<in> set float_keys \<and> float_of_str B v = None))) \<longrightarrow>
       env_override_step B env ov (var, key) = ov
       \<and> get_env_overrides B env = get_env_overrides B (env(var := None))
       \<and> main B args (w\<lparr>w_environ := env\<rparr>)
           = main B args (w\<lparr>w_environ := env(var := None)\<rparr>))
    \<and> (\<forall>x. dict_get (get_env_overrides B env) key = Some x \<longrightarrow>
          (\<exists>u v. (u, key) \<in> set env_mappings \<and> env u = Some v \<and> strip v \<noteq> []
             \<and> (key \<in> set int_keys \<longrightarrow> (\<exists>i. int_of_str B v = Some i \<and> x = VInt i))
             \<and> (key \<in> set float_keys \<longrightarrow> (\<exists>f. float_of_str B v = Some f \<and> x = VFloat f))
             \<and> (key \<notin> set int_keys \<and> key \<notin> set float_keys \<longrightarrow> x = VStr v)))
    \<and> (\<forall>v x. env var = Some v \<and> strip v \<noteq> []
          \<and> ((\<exists>i. key \<in> set int_keys \<and> int_of_str B v = Some i \<and> x = VInt i)
               \<or> (\<exists>f. key \<in> set float_keys \<and> float_of_str B v = Some f \<and> x = VFloat f)
               \<or> (key \<notin> set int_keys \<and> key \<notin> set float_keys \<and> x = VStr v)) \<longrightarrow>
          env_override_step B env ov (var, key) = dict_set ov key x
          \<and> dict_get (dict_set ov key x) key = Some x
          \<and> ((var = ''LEARNING_RATE'' \<longrightarrow>
                 (\<forall>u. env ''UNET_LR'' = Some u \<longrightarrow> strip u = [] \<or> float_of_str B u = None)) \<longrightarrow>
               dict_get (get_env_overrides B env) key = Some x
               \<and> dict_get (merge_layers p flat (get_env_overrides B env)) key = Some x))"
proof (intro conjI impI allI)
  assume h: "env var = None
       \<or> (\<exists>v. env var = Some v
              \<and> (strip v = []
                   \<or> (key \<in> set int_keys \<and> int_of_str B v = None)
                   \<or> (key \<in> set float_keys \<and> float_of_str B v = None)))"
  hence n: "env_value B env (var, key) = None" by (rule ignored_env_value)
  show "env_override_step B env ov (var, key) = ov"
    by (simp add: step_env_value n)
  show "get_env_overrides B env = get_env_overrides B (env(var := None))"
    using assms n by (rule get_env_overrides_without)
  show "main B args (w\<lparr>w_environ := env\<rparr>) = main B args (w\<lparr>w_environ := env(var := None)\<rparr>)"
    using assms n by (rule main_without)
next
  fix x
  assume "dict_get (get_env_overrides B env) key = Some x"
  hence "latest_value B env key env_mappings = Some x"
    by (simp only: get_env_overrides_latest)
  then obtain u where u: "(u, key) \<in> set env_mappings" "env_value B env (u, key) = Some x"
    using latest_value_source by blast
  from env_value_source[OF u(2)] u(1)
  show "\<exists>u v. (u, key) \<in> set env_mappings \<and> env u = Some v \<and> strip v \<noteq> []
          \<and> (key \<in> set int_keys \<longrightarrow> (\<exists>i. int_of_str B v = Some i \<and> x = VInt i))
          \<and> (key \<in> set float_keys \<longrightarrow> (\<exists>f. float_of_str B v = Some f \<and> x = VFloat f))
          \<and> (key \<notin> set int_keys \<and> key \<notin> set float_keys \<longrightarrow> x = VStr v)"
    by blast
next
  fix v x
  assume h: "env var = Some v \<and> strip v \<noteq> []
          \<and> ((\<exists>i. key \<in> set int_keys \<and> int_of_str B v = Some i \<and> x = VInt i)
               \<or> (\<exists>f. key \<in> set float_keys \<and> float_of_str B v = Some f \<and> x = VFloat f)
               \<or> (key \<notin> set int_keys \<and> key \<notin> set float_keys \<and> x = VStr v))"
  hence e: "env_value B env (var, key) = Some x"
    using coerced_env_value[of env var v key B x] by blast
  show "env_override_step B env ov (var, key) = dict_set ov key x"
    by (simp add: step_env_value e)
  show "dict_get (dict_set ov key x) key = Some x"
    by (simp add: dict_get_def map_of_dict_set)
  assume l: "var = ''LEARNING_RATE'' \<longrightarrow>
                 (\<forall>u. env ''UNET_LR'' = Some u \<longrightarrow> strip u = [] \<or> float_of_str B u = None)"
  have "var = ''LEARNING_RATE'' \<longrightarrow> env_value B env (''UNET_LR'', key) = None"
  proof
    assume lr: "var = ''LEARNING_RATE''"
    with assms have k: "key = ''learning_rate''" by (auto simp: env_mappings_def)
    hence f: "key \<in> set float_keys" by (simp add: float_keys_def)
    from l lr have "\<forall>u. env ''UNET_LR'' = Some u \<longrightarrow> strip u = [] \<or> float_of_str B u = None"
      by (rule mp)
    with f have "env ''UNET_LR'' = None
       \<or> (\<exists>v. env ''UNET_LR'' = Some v
              \<and> (strip v = []
                   \<or> (key \<in> set int_keys \<and> int_of_str B v = None)
                   \<or> (key \<in> set float_keys \<and> float_of_str B v = None)))"
      by (cases "env ''UNET_LR''") auto
    thus "env_value B env (''UNET_LR'', key) = None" by (rule ignored_env_value)
  qed
  with assms e have "latest_value B env key env_mappings = Some x"
    by (rule latest_value_env_mappings)
  thus g: "dict_get (get_env_overrides B env) key = Some x"
    by (simp only: get_env_overrides_latest)
  thus "dict_get (merge_layers p flat (get_env_overrides B env)) key = Some x"
    by (rule merged_override)
qed

theorem runtime_override_discipline_witness:
  "main sample_builtins default_args
       (sample_world (env_of [(''RANK'', ''abc''), (''SEED'', ''7'')]))
     = main sample_builtins default_args
         (sample_world ((env_of [(''RANK'', ''abc''), (''SEED'', ''7'')])(''RANK'' := None)))
   \<and> get_env_overrides sample_builtins (env_of [(''RANK'', ''abc''), (''SEED'', ''7'')])
     = get_env_overrides sample_builtins
         ((env_of [(''RANK'', ''abc''), (''SEED'', ''7'')])(''RANK'' := None))
   \<and> dict_get (get_env_overrides sample_builtins (env_of [(''RANK'', ''48'')])) ''network_dim''
     = Some (VInt 48)
   \<and> dict_get (merge_layers Fast [(''network_dim'', VInt 64)]
                 (get_env_overrides sample_builtins (env_of [(''RANK'', ''48'')]))) ''network_dim''
     = Some (VInt 48)"
proof -
  let ?e = "env_of [(''RANK'', ''abc''), (''SEED'', ''7'')]"
  let ?f = "env_of [(''RANK'', ''48'')]"
  have m: "(''RANK'', ''network_dim'') \<in> set env_mappings" by (simp add: env_mappings_def)
  have k: "''network_dim'' \<in> set int_keys" by (simp add: int_keys_def)
  have e: "?e ''RANK'' = Some ''abc''" and f: "?f ''RANK'' = Some ''48''"
    by (simp_all add: env_of_def)
  have bad: "int_of_str sample_builtins ''abc'' = None" by code_simp
  have good: "int_of_str sample_builtins ''48'' = Some 48" by code_simp
  have ns: "strip ''48'' \<noteq> []" by code_simp
  have sw: "\<And>a b. (sample_world a)\<lparr>w_environ := b\<rparr> = sample_world b"
    by (simp add: sample_world_def)
  from runtime_override_discipline[OF m, of ?e sample_builtins "[]" default_args
         "sample_world ?e" Fast "[]"] e k bad
  have "main sample_builtins default_args (sample_world ?e)
          = main sample_builtins default_args (sample_world (?e(''RANK'' := None)))
        \<and> get_env_overrides sample_builtins ?e
          = get_env_overrides sample_builtins (?e(''RANK'' := None))"
    by (simp add: sw)
  moreover
  from runtime_override_discipline[OF m, of ?f sample_builtins "[]" default_args
         "sample_world ?f" Fast "[(''network_dim'', VInt 64)]"] f k good ns
  have "dict_get (get_env_overrides sample_builtins ?f) ''network_dim'' = Some (VInt 48)
        \<and> dict_get (merge_layers Fast [(''network_dim'', VInt 64)]
                      (get_env_overrides sample_builtins ?f)) ''network_dim'' = Some (VInt 48)"
    by simp
  ultimately show ?thesis by blast
qed

theorem unparsable_override_silent_counterexample:
  "int_of_str sample_builtins ''abc'' = None
   \<and> status (main sample_builtins default_args (sample_world (env_of [(''RANK'', ''abc'')])))
       = Inr ()
   \<and> stderr (main sample_builtins default_args (sample_world (env_of [(''RANK'', ''abc'')])))
       = [''WARNING: TOML config not found: /repo/configs/flux_fast.toml'',
          ''WARNING: Using profile defaults for '' @ [CHR 0x27] @ ''fast'' @ [CHR 0x27]]
   \<and> main sample_builtins default_args (sample_world (env_of [(''RANK'', ''abc'')]))
       = main sample_builtins default_args (sample_world (env_of []))"
  by code_simp

subsection \<open>The resume source\<close>

lemma bindE_Inr_iff: "bindE m f = Inr y \<longleftrightarrow> (\<exists>x. m = Inr x \<and> f x = Inr y)"
  by (cases m) (simp_all add: bindE_def)

lemma bindE_Inl_iff: "bindE m f = Inl e \<longleftrightarrow> m = Inl e \<or> (\<exists>x. m = Inr x \<and> f x = Inl e)"
  by (cases m) (simp_all add: bindE_def)

lemma join_with_snoc: "xs \<noteq> [] \<Longrightarrow> join_with sep (xs @ [y]) = join_with sep xs @ sep @ y"
  by (induction sep xs rule: join_with.induct) simp_all

lemma quote_resume_token:
  "quote_part (''--network_weights='' @ r) =
     (if CHR '' '' \<in> set r then ''--network_weights='' @ [CHR 0x22] @ r @ [CHR 0x22]
      else ''--network_weights='' @ r)"
  by (simp add: quote_part_def Let_def)

lemma list_all_optional: "list_all P (if c then [x] else []) = (c \<longrightarrow> P x)"
  by simp

lemma script_path_not_resume_flag:
  assumes "take 1 sd \<noteq> ''-''"
  shows "\<not> is_resume_flag (sd @ ''/flux_train_network.py'')"
  using assms by (cases sd) (simp_all add: is_resume_flag_def)

lemma cmd_parts_tokens:
  assumes "cmd_parts B config paths run_name fp8_base = Inr tokens"
  shows "tokens \<noteq> []"
    and "(\<forall>sd. dict_get paths ''sdscripts'' = Some sd \<longrightarrow> take 1 sd \<noteq> ''-'') \<Longrightarrow>
         list_all (\<lambda>t. \<not> is_resume_flag t) tokens"
proof -
  from assms obtain sd where sd: "dict_index paths ''sdscripts'' = Inr sd"
    by (auto simp: cmd_parts_def bindE_Inr_iff)
  hence g: "dict_get paths ''sdscripts'' = Some sd"
    by (simp add: dict_index_def dict_get_def split: option.splits)
  from assms show "tokens \<noteq> []"
    by (auto simp: cmd_parts_def bindE_Inr_iff)
  assume "\<forall>sd. dict_get paths ''sdscripts'' = Some sd \<longrightarrow> take 1 sd \<noteq> ''-''"
  with g have "take 1 sd \<noteq> ''-''" by simp
  hence s: "\<not> is_resume_flag (sd @ ''/flux_train_network.py'')"
    by (rule script_path_not_resume_flag)
  have lit: "\<And>t u. is_resume_flag (t # u) = (take 18 (t # u) = ''--network_weights='')"
    by (simp add: is_resume_flag_def)
  from assms sd s show "list_all (\<lambda>t. \<not> is_resume_flag t) tokens"
    by (clarsimp simp: cmd_parts_def bindE_Inr_iff list_all_optional flux_parts_def
          FLUX_REQUIRED_PARAMS_def flag_def lit)
qed

lemma build_command_without_resume:
  "build_command B ex config paths run_name None fp8_base =
     bindE (cmd_parts B config paths run_name fp8_base)
       (\<lambda>parts. Inr (join_with '' '' (map quote_part parts), []))"
  by (simp add: build_command_def resume_parts_def)

text \<open>
  Synthesis fails only in the tokens that come before the resume source (a key missing from
  the path table, a comparison of a text with a number, a learning rate that is no number),
  and then it fails in the same way whatever the resume source is.
\<close>

lemma build_command_failure_independent_of_resume:
  "build_command B ex config paths run_name None fp8_base = Inl e \<longleftrightarrow>
   build_command B ex config paths run_name resume_from fp8_base = Inl e"
  by (cases "cmd_parts B config paths run_name fp8_base")
     (simp_all add: build_command_def bindE_def Let_def)

text \<open>
  C9. Let the synthesis without a resume source succeed with the command \<open>cmd\<close>. Then it
  succeeds for every resume source, on the same tokens followed by the extra ones of lines
  371-377. The token \<^verbatim>\<open>--network_weights=r\<close> is added, and \<^verbatim>\<open>[RESUME] Resuming from: r\<close> is
  printed, exactly when the source \<open>r\<close> is given (not \<^verbatim>\<open>None\<close>, not empty) and exists; when
  it is given and does not exist no token is added and the advisory
  \<^verbatim>\<open>WARNING: Resume checkpoint not found: r\<close> is printed; when it is not given nothing is
  added or printed. No other token begins with \<^verbatim>\<open>--network_weights=\<close>, provided the path of
  the training scripts does not begin with a dash, so a resume flag is among the tokens of
  the command if and only if the source is given and exists.
\<close>

theorem resume_flag_iff_source_exists:
  assumes "build_command B ex config paths run_name None fp8_base = Inr (cmd, adv)"
  shows "\<exists>tokens extra advisory.
      cmd_parts B config paths run_name fp8_base = Inr tokens
    \<and> adv = [] \<and> cmd = join_with '' '' (map quote_part tokens)
    \<and> build_command B ex config paths run_name resume_from fp8_base
        = Inr (join_with '' '' (map quote_part (tokens @ extra)), advisory)
    \<and> ((\<forall>sd. dict_get paths ''sdscripts'' = Some sd \<longrightarrow> take 1 sd \<noteq> ''-'') \<longrightarrow>
         ((\<exists>t \<in> set (tokens @ extra). is_resume_flag t)
            \<longleftrightarrow> (\<exists>r. resume_from = Some r \<and> r \<noteq> [] \<and> ex r)))
    \<and> (\<forall>r. resume_from = Some r \<and> r \<noteq> [] \<and> ex r \<longrightarrow>
         extra = [''--network_weights='' @ r]
         \<and> advisory = [''[RESUME] Resuming from: '' @ r]
         \<and> join_with '' '' (map quote_part (tokens @ extra))
             = cmd @ '' '' @ (if CHR '' '' \<in> set r
                              then ''--network_weights='' @ [CHR 0x22] @ r @ [CHR 0x22]
                              else ''--network_weights='' @ r))
    \<and> (\<forall>r. resume_from = Some r \<and> r \<noteq> [] \<and> \<not> ex r \<longrightarrow>
         extra = [] \<and> advisory = [''WARNING: Resume checkpoint not found: '' @ r])
    \<and> (resume_from = None \<or> resume_from = Some [] \<longrightarrow> extra = [] \<and> advisory = [])"
proof -
  from assms obtain tokens where t: "cmd_parts B config paths run_name fp8_base = Inr tokens"
    and c: "cmd = join_with '' '' (map quote_part tokens)" and a: "adv = []"
    by (auto simp: build_command_without_resume bindE_Inr_iff)
  note ne = cmd_parts_tokens(1)[OF t]
  let ?extra = "fst (resume_parts ex resume_from)"
  let ?advisory = "snd (resume_parts ex resume_from)"
  have b: "build_command B ex config paths run_name resume_from fp8_base
             = Inr (join_with '' '' (map quote_part (tokens @ ?extra)), ?advisory)"
    by (simp add: build_command_def t bindE_def Let_def)
  have own: "(\<exists>t \<in> set ?extra. is_resume_flag t) \<longleftrightarrow> (\<exists>r. resume_from = Some r \<and> r \<noteq> [] \<and> ex r)"
    by (cases resume_from) (simp_all add: resume_parts_def is_resume_flag_def)
  have iff: "(\<forall>sd. dict_get paths ''sdscripts'' = Some sd \<longrightarrow> take 1 sd \<noteq> ''-'') \<longrightarrow>
         ((\<exists>t \<in> set (tokens @ ?extra). is_resume_flag t)
            \<longleftrightarrow> (\<exists>r. resume_from = Some r \<and> r \<noteq> [] \<and> ex r))"
  proof
    assume "\<forall>sd. dict_get paths ''sdscripts'' = Some sd \<longrightarrow> take 1 sd \<noteq> ''-''"
    hence "list_all (\<lambda>t. \<not> is_resume_flag t) tokens" by (rule cmd_parts_tokens(2)[OF t])
    hence "\<not> (\<exists>t \<in> set tokens. is_resume_flag t)" by (simp add: list_all_iff)
    hence "(\<exists>t \<in> set (tokens @ ?extra). is_resume_flag t) \<longleftrightarrow> (\<exists>t \<in> set ?extra. is_resume_flag t)"
      by auto
    thus "(\<exists>t \<in> set (tokens @ ?extra). is_resume_flag t)
            \<longleftrightarrow> (\<exists>r. resume_from = Some r \<and> r \<noteq> [] \<and> ex r)"
      by (simp only: own)
  qed
  have yes: "\<forall>r. resume_from = Some r \<and> r \<noteq> [] \<and> ex r \<longrightarrow>
         ?extra = [''--network_weights='' @ r]
         \<and> ?advisory = [''[RESUME] Resuming from: '' @ r]
         \<and> join_with '' '' (map quote_part (tokens @ ?extra))
             = cmd @ '' '' @ (if CHR '' '' \<in> set r
                              then ''--network_weights='' @ [CHR 0x22] @ r @ [CHR 0x22]
                              else ''--network_weights='' @ r)"
  proof (intro allI impI)
    fix r
    assume h: "resume_from = Some r \<and> r \<noteq> [] \<and> ex r"
    hence e: "?extra = [''--network_weights='' @ r]"
      and v: "?advisory = [''[RESUME] Resuming from: '' @ r]"
      by (simp_all add: resume_parts_def)
    from ne have "map quote_part tokens \<noteq> []" by simp
    hence "join_with '' '' (map quote_part tokens @ [quote_part (''--network_weights='' @ r)])
            = cmd @ '' '' @ quote_part (''--network_weights='' @ r)"
      unfolding c by (rule join_with_snoc)
    hence "join_with '' '' (map quote_part (tokens @ ?extra))
            = cmd @ '' '' @ quote_part (''--network_weights='' @ r)"
      by (simp only: e map_append list.map)
    with e v show "?extra = [''--network_weights='' @ r]
         \<and> ?advisory = [''[RESUME] Resuming from: '' @ r]
         \<and> join_with '' '' (map quote_part (tokens @ ?extra))
             = cmd @ '' '' @ (if CHR '' '' \<in> set r
                              then ''--network_weights='' @ [CHR 0x22] @ r @ [CHR 0x22]
                              else ''--network_weights='' @ r)"
      by (simp only: quote_resume_token)
  qed
  have no: "\<forall>r. resume_from = Some r \<and> r \<noteq> [] \<and> \<not> ex r \<longrightarrow>
         ?extra = [] \<and> ?advisory = [''WARNING: Resume checkpoint not found: '' @ r]"
    by (simp add: resume_parts_def)
  have absent: "resume_from = None \<or> resume_from = Some [] \<longrightarrow> ?extra = [] \<and> ?advisory = []"
    by (auto simp: resume_parts_def)
  show ?thesis
    by (rule exI[of _ tokens], rule exI[of _ "?extra"], rule exI[of _ "?advisory"])
       (intro conjI t a c b iff yes no absent)
qed

theorem resume_flag_iff_source_exists_witness:
  "build_command sample_builtins (\<lambda>p. p = ''/ckpt/last.safetensors'') (PROFILE_DEFAULTS Fast)
     (make_paths (env_of []) ''/repo'') ''run1'' (Some ''/ckpt/last.safetensors'') False
   = Inr ((''accelerate launch --num_cpu_threads_per_process 1''
           @ '' /opt/sd-scripts/flux_train_network.py''
           @ '' --pretrained_model_name_or_path=/workspace/models/flux1-dev/flux1-dev.safetensors''
           @ '' --clip_l=/workspace/models/text_encoders/clip_l.safetensors''
           @ '' --t5xxl=/workspace/models/text_encoders/t5xxl_fp16.safetensors''
           @ '' --ae=/workspace/models/flux1-dev/ae.safetensors''
           @ '' --train_data_dir=/workspace/lora_training/data/subject''
           @ '' --output_dir=/workspace/lora_training/output --output_name=run1''
           @ '' --save_model_as=safetensors --network_module=networks.lora_flux''
           @ '' --network_dim=32 --network_alpha=32 --learning_rate=0.0001''
           @ '' --optimizer_type=AdamW8bit --lr_scheduler=constant_with_warmup''
           @ '' --lr_warmup_steps=100 --gradient_accumulation_steps=4 --sdpa''
           @ '' --mixed_precision=bf16 --gradient_checkpointing --guidance_scale=1.0''
           @ '' --timestep_sampling=flux_shift --model_prediction_type=raw''
           @ '' --discrete_flow_shift=1.0 --blocks_to_swap=18 --cache_text_encoder_outputs''
           @ '' --cache_latents --cache_latents_to_disk --resolution=512 --enable_bucket''
           @ '' --min_bucket_reso=256 --max_bucket_reso=768 --bucket_reso_steps=64''
           @ '' --train_batch_size=1 --max_train_steps=1500 --noise_offset=0.05''
           @ '' --caption_extension=.txt --keep_tokens=1 --save_every_n_steps=500''
           @ '' --save_precision=bf16 --sample_every_n_steps=250''
           @ '' --sample_prompts=/workspace/lora_training/configs/sample_prompts.txt''
           @ '' --sample_sampler=euler --logging_dir=/workspace/lora_training/logs --seed=42''
           @ '' --max_data_loader_n_workers=2'')
          @ '' --network_weights=/ckpt/last.safetensors'',
          [''[RESUME] Resuming from: /ckpt/last.safetensors''])
   \<and> build_command sample_builtins (\<lambda>p. p = ''/ckpt/last.safetensors'') (PROFILE_DEFAULTS Fast)
       (make_paths (env_of []) ''/repo'') ''run1'' (Some ''/ckpt/missing.safetensors'') False
     = Inr (''accelerate launch --num_cpu_threads_per_process 1''
            @ '' /opt/sd-scripts/flux_train_network.py''
            @ '' --pretrained_model_name_or_path=/workspace/models/flux1-dev/flux1-dev.safetensors''
            @ '' --clip_l=/workspace/models/text_encoders/clip_l.safetensors''
            @ '' --t5xxl=/workspace/models/text_encoders/t5xxl_fp16.safetensors''
            @ '' --ae=/workspace/models/flux1-dev/ae.safetensors''
            @ '' --train_data_dir=/workspace/lora_training/data/subject''
            @ '' --output_dir=/workspace/lora_training/output --output_name=run1''
            @ '' --save_model_as=safetensors --network_module=networks.lora_flux''
            @ '' --network_dim=32 --network_alpha=32 --learning_rate=0.0001''
            @ '' --optimizer_type=AdamW8bit --lr_scheduler=constant_with_warmup''
            @ '' --lr_warmup_steps=100 --gradient_accumulation_steps=4 --sdpa''
            @ '' --mixed_precision=bf16 --gradient_checkpointing --guidance_scale=1.0''
            @ '' --timestep_sampling=flux_shift --model_prediction_type=raw''
            @ '' --discrete_flow_shift=1.0 --blocks_to_swap=18 --cache_text_encoder_outputs''
            @ '' --cache_latents --cache_latents_to_disk --resolution=512 --enable_bucket''
            @ '' --min_bucket_reso=256 --max_bucket_reso=768 --bucket_reso_steps=64''
            @ '' --train_batch_size=1 --max_train_steps=1500 --noise_offset=0.05''
            @ '' --caption_extension=.txt --keep_tokens=1 --save_every_n_steps=500''
            @ '' --save_precision=bf16 --sample_every_n_steps=250''
            @ '' --sample_prompts=/workspace/lora_training/configs/sample_prompts.txt''
            @ '' --sample_sampler=euler --logging_dir=/workspace/lora_training/logs --seed=42''
            @ '' --max_data_loader_n_workers=2'',
            [''WARNING: Resume checkpoint not found: /ckpt/missing.safetensors''])"
proof -
  define ex :: "string \<Rightarrow> bool" where "ex = (\<lambda>p. p = ''/ckpt/last.safetensors'')"
  define paths where "paths = make_paths (env_of []) ''/repo''"
  define cmd where "cmd = ''accelerate launch --num_cpu_threads_per_process 1''
               @ '' /opt/sd-scripts/flux_train_network.py''
               @ '' --pretrained_model_name_or_path=/workspace/models/flux1-dev/flux1-dev.safetensors''
               @ '' --clip_l=/workspace/models/text_encoders/clip_l.safetensors''
               @ '' --t5xxl=/workspace/models/text_encoders/t5xxl_fp16.safetensors''
               @ '' --ae=/workspace/models/flux1-dev/ae.safetensors''
               @ '' --train_data_dir=/workspace/lora_training/data/subject''
               @ '' --output_dir=/workspace/lora_training/output --output_name=run1''
               @ '' --save_model_as=safetensors --network_module=networks.lora_flux''
               @ '' --network_dim=32 --network_alpha=32 --learning_rate=0.0001''
               @ '' --optimizer_type=AdamW8bit --lr_scheduler=constant_with_warmup''
               @ '' --lr_warmup_steps=100 --gradient_accumulation_steps=4 --sdpa''
               @ '' --mixed_precision=bf16 --gradient_checkpointing --guidance_scale=1.0''
               @ '' --timestep_sampling=flux_shift --model_prediction_type=raw''
               @ '' --discrete_flow_shift=1.0 --blocks_to_swap=18 --cache_text_encoder_outputs''
               @ '' --cache_latents --cache_latents_to_disk --resolution=512 --enable_bucket''
               @ '' --min_bucket_reso=256 --max_bucket_reso=768 --bucket_reso_steps=64''
               @ '' --train_batch_size=1 --max_train_steps=1500 --noise_offset=0.05''
               @ '' --caption_extension=.txt --keep_tokens=1 --save_every_n_steps=500''
               @ '' --save_precision=bf16 --sample_every_n_steps=250''
               @ '' --sample_prompts=/workspace/lora_training/configs/sample_prompts.txt''
               @ '' --sample_sampler=euler --logging_dir=/workspace/lora_training/logs --seed=42''
               @ '' --max_data_loader_n_workers=2''"
  have base: "build_command sample_builtins ex (PROFILE_DEFAULTS Fast) paths ''run1'' None False
                = Inr (cmd, [])"
    unfolding ex_def paths_def cmd_def by code_simp
  have e1: "ex ''/ckpt/last.safetensors''" and e2: "\<not> ex ''/ckpt/missing.safetensors''"
    by (simp_all add: ex_def)
  from resume_flag_iff_source_exists[OF base, of "Some ''/ckpt/last.safetensors''"] e1
  have first: "build_command sample_builtins ex (PROFILE_DEFAULTS Fast) paths ''run1''
         (Some ''/ckpt/last.safetensors'') False
       = Inr (cmd @ '' --network_weights=/ckpt/last.safetensors'',
              [''[RESUME] Resuming from: /ckpt/last.safetensors''])"
    by (elim exE conjE) simp
  from resume_flag_iff_source_exists[OF base, of "Some ''/ckpt/missing.safetensors''"] e2
  have second: "build_command sample_builtins ex (PROFILE_DEFAULTS Fast) paths ''run1''
         (Some ''/ckpt/missing.safetensors'') False
       = Inr (cmd, [''WARNING: Resume checkpoint not found: /ckpt/missing.safetensors''])"
    by (elim exE conjE) simp
  from first second show ?thesis
    unfolding ex_def paths_def cmd_def by (rule conjI)
qed

end
